theory Spec2Isabelle
  imports Main "HOL-Library.Word"
begin

section \<open>JavaScript strings and the built-ins the application calls\<close>

text \<open>
  A JavaScript string is a sequence of 16-bit UTF-16 code units, so \<^const>\<open>length\<close> is the
  \<open>.length\<close> of the source, and a string can hold a surrogate that has no partner. A
  literal of the source is written \<open>js ''...''\<close>.
\<close>

type_synonym unit = "16 word"

type_synonym jsstring = "unit list"

definition js :: "string \<Rightarrow> jsstring" where
  "js s = map of_char s"

definition isDigit :: "unit \<Rightarrow> bool" where
  \<comment> \<open>the regular expression class \<open>\d\<close>: the ASCII digits only\<close>
  "isDigit u = (0x30 \<le> u \<and> u \<le> 0x39)"

definition isWhiteSpace :: "unit \<Rightarrow> bool" where
  \<comment> \<open>what \<open>String.prototype.trim\<close> strips: the WhiteSpace and LineTerminator code points\<close>
  "isWhiteSpace u =
     (u \<in> set [0x09, 0x0A, 0x0B, 0x0C, 0x0D, 0x20, 0xA0, 0x1680, 0x2028, 0x2029, 0x202F,
                0x205F, 0x3000, 0xFEFF]
      \<or> (0x2000 \<le> u \<and> u \<le> 0x200A))"

definition trim :: "jsstring \<Rightarrow> jsstring" where
  "trim s = rev (dropWhile isWhiteSpace (rev (dropWhile isWhiteSpace s)))"

definition lowerUnit :: "unit \<Rightarrow> unit" where
  \<comment> \<open>the letters A-Z and the Latin-1 capitals (0xC0 to 0xDE without the multiplication
      sign) are 32 below their small letters\<close>
  "lowerUnit u =
     (if (0x41 \<le> u \<and> u \<le> 0x5A) \<or> (0xC0 \<le> u \<and> u \<le> 0xDE \<and> u \<noteq> 0xD7)
      then u + 0x20 else u)"

definition toLowerCase :: "jsstring \<Rightarrow> jsstring" where
  \<comment> \<open>\<open>String.prototype.toLowerCase\<close> up to Latin-1; a code unit beyond Latin-1 is left as
      it is. The built-in lower-cases letters beyond Latin-1 too, none of them to an ASCII
      letter but the Kelvin sign (to \<open>k\<close>) and the dotted capital I (to \<open>i\<close> and a combining
      dot), so the searches for \<open>name\<close>, \<open>phone\<close>, \<open>mobile\<close> and \<open>contact\<close> below come
      out as with the built-in.\<close>
  "toLowerCase s = map lowerUnit s"

fun startsWith :: "jsstring \<Rightarrow> jsstring \<Rightarrow> bool" where
  "startsWith s [] = True"
| "startsWith [] (p # ps) = False"
| "startsWith (c # cs) (p # ps) = (c = p \<and> startsWith cs ps)"

fun str_includes :: "jsstring \<Rightarrow> jsstring \<Rightarrow> bool" where
  \<comment> \<open>\<open>s.includes(p)\<close>: \<open>p\<close> occurs in \<open>s\<close> as a contiguous substring\<close>
  "str_includes [] p = (p = [])"
| "str_includes (c # cs) p = (startsWith (c # cs) p \<or> str_includes cs p)"

fun index_at :: "'a list \<Rightarrow> nat \<Rightarrow> 'a option" where
  \<comment> \<open>array indexing \<open>xs[i]\<close>; out of range is \<open>undefined\<close>\<close>
  "index_at [] i = None"
| "index_at (x # xs) 0 = Some x"
| "index_at (x # xs) (Suc i) = index_at xs i"

fun join :: "jsstring \<Rightarrow> jsstring list \<Rightarrow> jsstring" where
  "join sep [] = []"
| "join sep [x] = x"
| "join sep (x # y # ys) = x @ sep @ join sep (y # ys)"

definition formatPhone :: "jsstring \<Rightarrow> jsstring" where
  \<comment> \<open>\<open>phone.replace(/\D/g, '')\<close>\<close>
  "formatPhone phone = concat (map (\<lambda>u. if isDigit u then [u] else []) phone)"

fun getSubstitution :: "jsstring \<Rightarrow> jsstring \<Rightarrow> jsstring \<Rightarrow> jsstring \<Rightarrow> jsstring" where
  \<comment> \<open>ECMAScript GetSubstitution for a pattern without capture groups: in the replacement
      text \<open>$$\<close> is a dollar sign, \<open>$&\<close> the matched text, dollar-backquote the text
      before the match, dollar-apostrophe the text after it; every other character,
      a dollar sign before anything else included, stands for itself.
      Arguments: matched text, text before the match, text after it, replacement.\<close>
  "getSubstitution m b a [] = []"
| "getSubstitution m b a [c] = [c]"
| "getSubstitution m b a (c # d # r) =
     (if c = 0x24 \<and> d = 0x24 then 0x24 # getSubstitution m b a r
      else if c = 0x24 \<and> d = 0x26 then m @ getSubstitution m b a r
      else if c = 0x24 \<and> d = 0x60 then b @ getSubstitution m b a r
      else if c = 0x24 \<and> d = 0x27 then a @ getSubstitution m b a r
      else c # getSubstitution m b a (d # r))"

definition nameToken :: jsstring where
  "nameToken = js ''{{name}}''"

fun replaceName :: "jsstring \<Rightarrow> jsstring \<Rightarrow> jsstring \<Rightarrow> jsstring" where
  \<comment> \<open>\<open>s.replace(/{{name}}/g, rep)\<close>: a left-to-right scan for non-overlapping matches of
      the eight code units of the token.
      Arguments: replacement, the part of the subject already scanned, the rest.\<close>
  "replaceName rep pre [] = []"
| "replaceName rep pre (c # cs) =
     (if startsWith (c # cs) nameToken
      then getSubstitution nameToken pre (drop 7 cs) rep
             @ replaceName rep (pre @ nameToken) (drop 7 cs)
      else c # replaceName rep (pre @ [c]) cs)"

definition hexDigit :: "nat \<Rightarrow> unit" where
  "hexDigit n = js ''0123456789ABCDEF'' ! (n mod 16)"

definition percent :: "nat \<Rightarrow> jsstring" where
  \<comment> \<open>one octet, percent-encoded\<close>
  "percent b = [0x25, hexDigit (b div 16), hexDigit b]"

definition utf8 :: "nat \<Rightarrow> nat list" where
  \<comment> \<open>the octets of a code point in UTF-8\<close>
  "utf8 n =
     (if n < 0x80 then [n]
      else if n < 0x800 then [0xC0 + n div 0x40, 0x80 + n mod 0x40]
      else if n < 0x10000
        then [0xE0 + n div 0x1000, 0x80 + (n div 0x40) mod 0x40, 0x80 + n mod 0x40]
      else [0xF0 + n div 0x40000, 0x80 + (n div 0x1000) mod 0x40,
            0x80 + (n div 0x40) mod 0x40, 0x80 + n mod 0x40])"

definition unreserved :: "unit \<Rightarrow> bool" where
  \<comment> \<open>the characters \<open>encodeURIComponent\<close> leaves as they are\<close>
  "unreserved u =
     (u \<in> set (js ''ABCDEFGHIJKLMNOPQRSTUVWXYZabcdefghijklmnopqrstuvwxyz0123456789-_.!~*()'')
      \<or> u = 0x27)"

fun encodeURIComponent :: "jsstring \<Rightarrow> jsstring option" where
  \<comment> \<open>\<open>None\<close> is the URIError the built-in throws on a surrogate without its partner: a
      high surrogate (0xD800 to 0xDBFF) not followed by a low one, or a low surrogate
      (0xDC00 to 0xDFFF) not preceded by a high one\<close>
  "encodeURIComponent [] = Some []"
| "encodeURIComponent (u # us) =
     (if unreserved u then map_option ((#) u) (encodeURIComponent us)
      else if u < 0xD800 \<or> 0xDFFF < u
        then map_option ((@) (concat (map percent (utf8 (unat u))))) (encodeURIComponent us)
      else if u \<le> 0xDBFF
        then (case us of
                [] \<Rightarrow> None
              | v # vs \<Rightarrow>
                  (if 0xDC00 \<le> v \<and> v \<le> 0xDFFF
                   then map_option
                          ((@) (concat (map percent
                                  (utf8 (0x10000 + (unat u - 0xD800) * 0x400
                                           + (unat v - 0xDC00))))))
                          (encodeURIComponent vs)
                   else None))
      else None)"

fun dec :: "nat \<Rightarrow> jsstring" where
  \<comment> \<open>a number in a template literal: its decimal digits\<close>
  "dec n = (if n < 10 then [js ''0123456789'' ! n]
            else dec (n div 10) @ [js ''0123456789'' ! (n mod 10)])"

declare dec.simps [simp del]

section \<open>types.ts\<close>

datatype status = Pending | Sent | Skipped | Sending | Failed

type_synonym row = "(jsstring \<times> jsstring) list"
  \<comment> \<open>\<open>Record<string, string>\<close>: the cells of one spreadsheet row by header, in key order\<close>

record candidate =
  cid :: jsstring
  name :: jsstring
  phone :: jsstring
  originalRow :: row
  status :: status

record MessageTemplate =
  intro :: jsstring
  questions :: "jsstring list"
  outro :: jsstring

datatype AppStep = UPLOAD | MAPPING | EDITOR | QUEUE

record GeminiMappingResponse =
  name_column :: "jsstring option"
  phone_column :: "jsstring option"
  reasoning :: "jsstring option"

text \<open>
  The fields of a mapping response are optional: the fallback reads \<open>headers[0]\<close> and
  \<open>headers[1]\<close>, which are \<open>undefined\<close> on a short header list, and a parsed reply of the
  service can lack any field.
\<close>

datatype js_error = ApiKeyMissing | RequestFailed | SyntaxError | TypeError | URIError

section \<open>services/geminiService.ts\<close>

text \<open>
  The generative service is outside the program. \<open>analyzeCsvHeaders\<close> takes what its
  \<open>try\<close> block meets, as a function of its own arguments: \<open>getClient\<close> or the request
  throws; the reply has no text, and \<open>response.text || '{}'\<close> makes \<open>JSON.parse\<close> return
  an object without fields; the text is not JSON, and \<open>JSON.parse\<close> throws; or the text
  parses to an object, which is returned as it is, whatever fields it has.
\<close>

datatype mapping_reply =
    Threw js_error
  | NoText
  | NotJson
  | Parsed GeminiMappingResponse

definition nameFallback :: "jsstring list \<Rightarrow> jsstring option" where
  "nameFallback headers =
     (case find (\<lambda>h. str_includes (toLowerCase h) (js ''name'')) headers of
        Some h \<Rightarrow> Some h
      | None \<Rightarrow> index_at headers 0)"

definition phoneFallback :: "jsstring list \<Rightarrow> jsstring option" where
  "phoneFallback headers =
     (case find (\<lambda>h. str_includes (toLowerCase h) (js ''phone'')
                      \<or> str_includes (toLowerCase h) (js ''mobile'')
                      \<or> str_includes (toLowerCase h) (js ''contact'')) headers of
        Some h \<Rightarrow> Some h
      | None \<Rightarrow> index_at headers 1)"

definition fallback :: "jsstring list \<Rightarrow> GeminiMappingResponse" where
  \<comment> \<open>the \<open>catch\<close> block\<close>
  "fallback headers =
     \<lparr> name_column = nameFallback headers,
       phone_column = phoneFallback headers,
       reasoning = Some (js ''Fallback logic due to API error'') \<rparr>"

definition analyzeCsvHeaders ::
  "(jsstring list \<Rightarrow> row \<Rightarrow> mapping_reply) \<Rightarrow> jsstring list \<Rightarrow> row \<Rightarrow> GeminiMappingResponse" where
  "analyzeCsvHeaders ai headers sampleRow =
     (case ai headers sampleRow of
        Threw error \<Rightarrow> fallback headers
      | NotJson \<Rightarrow> fallback headers
      | NoText \<Rightarrow> \<lparr>name_column = None, phone_column = None, reasoning = None\<rparr>
      | Parsed result \<Rightarrow> result)"

datatype tone = Professional | Friendly | Urgent

text \<open>
  \<open>refineMessageTone\<close> takes the outcome of its \<open>try\<close> block likewise: \<open>Inl\<close> when
  \<open>getClient\<close> or the request throws, \<open>Inr\<close> with \<open>response.text\<close> otherwise, which may be
  \<open>undefined\<close> or empty.
\<close>

definition refineMessageTone ::
  "(jsstring \<Rightarrow> tone \<Rightarrow> js_error + jsstring option) \<Rightarrow> jsstring \<Rightarrow> tone \<Rightarrow> jsstring" where
  "refineMessageTone ai currentMessage t =
     (case ai currentMessage t of
        Inr (Some text) \<Rightarrow> (if text = [] then currentMessage else text)
      | Inr None \<Rightarrow> currentMessage
      | Inl error \<Rightarrow> currentMessage)"

section \<open>components/MessageEditor.tsx\<close>

definition handleRefine ::
  "(jsstring \<Rightarrow> tone \<Rightarrow> js_error + jsstring option) \<Rightarrow> tone \<Rightarrow> MessageTemplate
     \<Rightarrow> MessageTemplate" where
  \<comment> \<open>\<open>setTemplate(prev => ({ ...prev, intro: newIntro.replace(/"/g, '') }))\<close>\<close>
  "handleRefine ai t template =
     (let newIntro = refineMessageTone ai (intro template) t
      in template\<lparr>intro := filter (\<lambda>u. u \<noteq> 0x22) newIntro\<rparr>)"

definition fullMessage :: "MessageTemplate \<Rightarrow> jsstring" where
  \<comment> \<open>the template literal of App and MessageEditor, then \<open>.trim()\<close>\<close>
  "fullMessage template =
     trim ([0x0A] @ intro template @ [0x0A, 0x0A]
           @ join [0x0A] (questions template) @ [0x0A, 0x0A]
           @ outro template @ [0x0A])"

section \<open>services/dbService.ts\<close>

text \<open>
  The hosted store is outside the program. It is modelled by what the adapter can observe:
  the \<open>candidates\<close> table in creation order (\<open>None\<close> while the table does not exist), a
  standing fault that fails every request (a network or permission error), and the list of
  requests received. Rows are written by this adapter only, so a stored status is a
  \<^typ>\<open>status\<close> or null.
\<close>

record pg_error =
  code :: jsstring
  message :: jsstring

record db_row =
  row_id :: jsstring
  row_name :: jsstring
  row_phone :: jsstring
  row_status :: "status option"
  original_row :: "row option"

datatype request = Select | Upsert "db_row list" | Update jsstring status | Delete

record backend =
  table :: "db_row list option"
  fault :: "pg_error option"
  requests :: "request list"

definition answer :: "backend \<Rightarrow> pg_error option" where
  \<comment> \<open>the error of a request, if any; a missing table is PostgREST's PGRST205\<close>
  "answer b =
     (case fault b of
        Some e \<Rightarrow> Some e
      | None \<Rightarrow>
          (case table b of
             None \<Rightarrow> Some \<lparr>code = js ''PGRST205'', message = js ''Could not find the table''\<rparr>
           | Some rows \<Rightarrow> None))"

definition supabase_select :: "backend \<Rightarrow> (pg_error + db_row list option) \<times> backend" where
  "supabase_select b =
     ((case answer b of Some e \<Rightarrow> Inl e | None \<Rightarrow> Inr (table b)),
      b\<lparr>requests := requests b @ [Select]\<rparr>)"

definition upsertRow :: "db_row \<Rightarrow> db_row list \<Rightarrow> db_row list" where
  "upsertRow r rows =
     (if list_ex (\<lambda>x. row_id x = row_id r) rows
      then map (\<lambda>x. if row_id x = row_id r then r else x) rows
      else rows @ [r])"

definition supabase_upsert :: "db_row list \<Rightarrow> backend \<Rightarrow> pg_error option \<times> backend" where
  "supabase_upsert rs b =
     (answer b,
      b\<lparr>table := (if answer b = None then map_option (fold upsertRow rs) (table b) else table b),
        requests := requests b @ [Upsert rs]\<rparr>)"

definition supabase_update :: "jsstring \<Rightarrow> status \<Rightarrow> backend \<Rightarrow> pg_error option \<times> backend" where
  "supabase_update i s b =
     (answer b,
      b\<lparr>table := (if answer b = None
                   then map_option (map (\<lambda>r. if row_id r = i then r\<lparr>row_status := Some s\<rparr> else r))
                          (table b)
                   else table b),
        requests := requests b @ [Update i s]\<rparr>)"

definition supabase_delete :: "backend \<Rightarrow> pg_error option \<times> backend" where
  \<comment> \<open>\<open>.delete().neq('id', 'placeholder')\<close>\<close>
  "supabase_delete b =
     (answer b,
      b\<lparr>table := (if answer b = None
                   then map_option (filter (\<lambda>r. row_id r = js ''placeholder'')) (table b)
                   else table b),
        requests := requests b @ [Delete]\<rparr>)"

record db =
  isOfflineMode :: bool
  remote :: backend

record query_result =
  data :: "candidate list"
  error :: "jsstring option"

definition missingTable :: "pg_error \<Rightarrow> bool" where
  "missingTable e = (code e = js ''PGRST205'' \<or> code e = js ''42P01'')"

definition mapRow :: "db_row \<Rightarrow> candidate" where
  "mapRow r =
     \<lparr> cid = row_id r, name = row_name r, phone = row_phone r,
       originalRow = (case original_row r of None \<Rightarrow> [] | Some x \<Rightarrow> x),
       status = (case row_status r of None \<Rightarrow> Pending | Some s \<Rightarrow> s) \<rparr>"

definition getAllCandidates :: "db \<Rightarrow> query_result \<times> db" where
  "getAllCandidates d =
     (let (resp, b) = supabase_select (remote d)
      in case resp of
           Inl e \<Rightarrow>
             (if missingTable e
              then (\<lparr>data = [], error = Some (js ''missing_table'')\<rparr>,
                    d\<lparr>isOfflineMode := True, remote := b\<rparr>)
              else (\<lparr>data = [], error = Some (message e)\<rparr>, d\<lparr>remote := b\<rparr>))
         | Inr None \<Rightarrow> (\<lparr>data = [], error = None\<rparr>, d\<lparr>remote := b\<rparr>)
         | Inr (Some rows) \<Rightarrow> (\<lparr>data = map mapRow rows, error = None\<rparr>, d\<lparr>remote := b\<rparr>))"

definition retryConnection :: "db \<Rightarrow> bool \<times> db" where
  "retryConnection d =
     (let (res, d') = getAllCandidates (d\<lparr>isOfflineMode := False\<rparr>)
      in (error res \<noteq> Some (js ''missing_table''), d'))"

definition afterWrite :: "db \<Rightarrow> pg_error option \<times> backend \<Rightarrow> db" where
  \<comment> \<open>the error handling shared by the three write operations\<close>
  "afterWrite d r =
     (case fst r of
        Some e \<Rightarrow> (if missingTable e then d\<lparr>isOfflineMode := True, remote := snd r\<rparr>
                   else d\<lparr>remote := snd r\<rparr>)
      | None \<Rightarrow> d\<lparr>remote := snd r\<rparr>)"

definition toRow :: "candidate \<Rightarrow> db_row" where
  "toRow c =
     \<lparr> row_id = cid c, row_name = name c, row_phone = phone c,
       row_status = Some (status c), original_row = Some (originalRow c) \<rparr>"

definition addCandidates :: "candidate list \<Rightarrow> db \<Rightarrow> db" where
  "addCandidates cs d =
     (if isOfflineMode d \<or> cs = [] then d
      else afterWrite d (supabase_upsert (map toRow cs) (remote d)))"

definition updateStatus :: "jsstring \<Rightarrow> status \<Rightarrow> db \<Rightarrow> db" where
  "updateStatus i s d =
     (if isOfflineMode d then d else afterWrite d (supabase_update i s (remote d)))"

definition clearCandidates :: "db \<Rightarrow> db" where
  "clearCandidates d =
     (if isOfflineMode d then d else afterWrite d (supabase_delete (remote d)))"

section \<open>App.tsx and components/ProcessingQueue.tsx\<close>

datatype db_status = Connected | Offline

datatype bulk_action = All | Selected

record pq_state =
  candidateToConfirm :: "candidate option"
  isBulkSending :: bool
  showBulkConfirm :: bool
  selectedIds :: "jsstring set"
  bulkActionType :: "bulk_action option"

text \<open>
  A send is asynchronous: \<open>executeSend\<close> and the loop of \<open>processCandidateList\<close> mark a
  candidate \<open>sending\<close> and then wait on a timer (800 ms, 1500 ms), and anything the user does
  in the meantime runs first. A \<^emph>\<open>task\<close> is a send waiting on its timer: the candidate in
  flight, for the loop the candidates still to come, and the message of the render the
  handler was created in.
\<close>

datatype task =
    SingleSend candidate jsstring
  | BulkSend candidate "candidate list" jsstring

text \<open>
  One record holds what the handlers read and write: the state of \<open>App\<close>, the module state
  of the persistence adapter with the store behind it, the state of the mounted
  \<open>ProcessingQueue\<close> (\<open>None\<close> while \<open>step\<close> is not \<open>QUEUE\<close>, when React holds no state for
  the component), the sends waiting on their timers, and the browser: \<open>popups n\<close> tells
  whether the \<open>n\<close>-th call of \<open>window.open\<close> returns a window, \<open>opened\<close> lists the URLs
  passed to it, \<open>alerts\<close> the messages shown. \<open>history\<close> records the calls of
  \<open>handleUpdateStatus\<close> in order; no handler reads it. State of \<open>App\<close> that only drives
  the rendering (\<open>analyzing\<close>, \<open>mappingReason\<close>, the theme, the SQL dialog) is left out.
\<close>

record world =
  step :: AppStep
  candidates :: "candidate list"
  dbStatus :: db_status
  template :: MessageTemplate
  db :: db
  queue :: "pq_state option"
  tasks :: "task list"
  popups :: "nat \<Rightarrow> bool"
  opened :: "jsstring list"
  alerts :: "jsstring list"
  history :: "(jsstring \<times> status) list"

definition DEFAULT_SCREENING_QUESTIONS :: "jsstring list" where
  "DEFAULT_SCREENING_QUESTIONS =
     map js
       [''Total Experience?'', ''Relevant US Sales Experience?'', ''Current/Last CTC:'',
        ''Expected CTC:'', ''Official Notice Period:'',
        ''How soon you can join if you get selected?:'', ''Reason for job change:'',
        ''Location?:'', ''Do you have a personal system/setup to manage remotely?'']"

definition DEFAULT_INTRO :: jsstring where
  "DEFAULT_INTRO = js ''Hi {{name}}, I am the Head of Talent Acquisition at our SaaS organization. We reviewed your profile and would like to proceed.''"

definition DEFAULT_OUTRO :: jsstring where
  "DEFAULT_OUTRO = js ''Please reply with these details so we can schedule an interview. Thanks!''"

definition initialQueue :: pq_state where
  "initialQueue =
     \<lparr> candidateToConfirm = None, isBulkSending = False, showBulkConfirm = False,
       selectedIds = {}, bulkActionType = None \<rparr>"

definition startup :: "backend \<Rightarrow> (nat \<Rightarrow> bool) \<Rightarrow> world" where
  \<comment> \<open>a page load: the initial state of the module and of \<open>App\<close>, over the store as it is\<close>
  "startup b p =
     \<lparr> step = UPLOAD, candidates = [], dbStatus = Connected,
       template = \<lparr>intro = DEFAULT_INTRO, questions = DEFAULT_SCREENING_QUESTIONS,
                    outro = DEFAULT_OUTRO\<rparr>,
       db = \<lparr>isOfflineMode = False, remote = b\<rparr>,
       queue = None, tasks = [], popups = p, opened = [], alerts = [], history = [] \<rparr>"

definition setStep :: "AppStep \<Rightarrow> world \<Rightarrow> world" where
  \<comment> \<open>\<open>ProcessingQueue\<close> is rendered under \<open>step === AppStep.QUEUE\<close> only: entering the step
      mounts it with its initial state, leaving the step discards its state\<close>
  "setStep s w =
     w\<lparr>step := s,
       queue := (if s = QUEUE
                 then (case queue w of None \<Rightarrow> Some initialQueue | Some q \<Rightarrow> Some q)
                 else None)\<rparr>"

definition loadCandidates :: "world \<Rightarrow> world" where
  "loadCandidates w =
     (let (res, d) = getAllCandidates (db w); w1 = w\<lparr>db := d\<rparr>
      in if error res = Some (js ''missing_table'') then w1\<lparr>dbStatus := Offline\<rparr>
         else if data res \<noteq> [] then setStep QUEUE (w1\<lparr>candidates := data res\<rparr>)
         else w1)"

definition rowGet :: "row \<Rightarrow> jsstring option \<Rightarrow> jsstring option" where
  \<comment> \<open>\<open>row[key]\<close>; an \<open>undefined\<close> key reads the property named \<open>undefined\<close>\<close>
  "rowGet r k = map_of r (case k of None \<Rightarrow> js ''undefined'' | Some h \<Rightarrow> h)"

definition orElse :: "jsstring option \<Rightarrow> jsstring \<Rightarrow> jsstring" where
  \<comment> \<open>\<open>v || d\<close> for a string or \<open>undefined\<close>\<close>
  "orElse v d = (case v of None \<Rightarrow> d | Some x \<Rightarrow> (if x = [] then d else x))"

definition mkCandidate :: "GeminiMappingResponse \<Rightarrow> (nat \<Rightarrow> nat) \<Rightarrow> nat \<times> row \<Rightarrow> candidate" where
  \<comment> \<open>\<open>now idx\<close> is what \<open>Date.now()\<close> returns while row \<open>idx\<close> is mapped\<close>
  "mkCandidate mapping now ir =
     \<lparr> cid = js ''c-'' @ dec (now (fst ir)) @ js ''-'' @ dec (fst ir),
       name = orElse (rowGet (snd ir) (name_column mapping)) (js ''Candidate''),
       phone = orElse (rowGet (snd ir) (phone_column mapping)) [],
       originalRow = snd ir,
       status = Pending \<rparr>"

definition mappedCandidates ::
  "GeminiMappingResponse \<Rightarrow> (nat \<Rightarrow> nat) \<Rightarrow> row list \<Rightarrow> candidate list" where
  "mappedCandidates mapping now rawData =
     filter (\<lambda>c. length (phone c) > 5) (map (mkCandidate mapping now) (enumerate 0 rawData))"

definition handleDataLoaded ::
  "(jsstring list \<Rightarrow> row \<Rightarrow> mapping_reply) \<Rightarrow> (nat \<Rightarrow> nat)
     \<Rightarrow> row list \<Rightarrow> world \<Rightarrow> js_error + world" where
  \<comment> \<open>\<open>Object.keys(rawData[0])\<close> throws on an empty list\<close>
  "handleDataLoaded ai now rawData w =
     (case rawData of
        [] \<Rightarrow> Inl TypeError
      | r0 # _ \<Rightarrow>
          (let headers = map fst r0;
               mapping = analyzeCsvHeaders ai headers r0;
               mapped = mappedCandidates mapping now rawData;
               d = addCandidates mapped (clearCandidates (db w))
           in Inr (setStep MAPPING (w\<lparr>candidates := mapped, db := d\<rparr>))))"

definition handleUpdateStatus :: "jsstring \<Rightarrow> status \<Rightarrow> world \<Rightarrow> world" where
  "handleUpdateStatus i s w =
     w\<lparr>candidates := map (\<lambda>c. if cid c = i then c\<lparr>status := s\<rparr> else c) (candidates w),
       db := updateStatus i s (db w),
       history := history w @ [(i, s)]\<rparr>"

definition handleReset :: "world \<Rightarrow> world" where
  "handleReset w = (setStep UPLOAD (w\<lparr>candidates := []\<rparr>))\<lparr>db := clearCandidates (db w)\<rparr>"

definition pendingCount :: "world \<Rightarrow> nat" where
  "pendingCount w = length (filter (\<lambda>c. status c = Pending) (candidates w))"

definition namePart :: "candidate \<Rightarrow> jsstring" where
  \<comment> \<open>\<open>(candidate.name || 'Candidate').split(' ')[0]\<close>\<close>
  "namePart c = takeWhile (\<lambda>u. u \<noteq> 0x20) (orElse (Some (name c)) (js ''Candidate''))"

definition personalizedMessage :: "jsstring \<Rightarrow> candidate \<Rightarrow> jsstring" where
  "personalizedMessage finalMessage c = replaceName (namePart c) [] finalMessage"

definition openWhatsApp :: "jsstring \<Rightarrow> candidate \<Rightarrow> world \<Rightarrow> js_error + bool \<times> world" where
  \<comment> \<open>\<open>Inl\<close> when \<open>encodeURIComponent\<close> throws; nothing in the component catches it\<close>
  "openWhatsApp finalMessage c w =
     (let cleanPhone = formatPhone (phone c)
      in if cleanPhone = [] then Inr (False, w)
         else
           (case encodeURIComponent (personalizedMessage finalMessage c) of
              None \<Rightarrow> Inl URIError
            | Some encodedMessage \<Rightarrow>
                (let url = js ''https://api.whatsapp.com/send?phone='' @ cleanPhone
                             @ js ''&text='' @ encodedMessage
                 in Inr (popups w (length (opened w)), w\<lparr>opened := opened w @ [url]\<rparr>))))"

definition executeSend :: "candidate \<Rightarrow> world \<Rightarrow> world" where
  \<comment> \<open>\<open>executeSend\<close> up to its \<open>await\<close>: the rest waits on the timer\<close>
  "executeSend c w =
     (let w1 = handleUpdateStatus (cid c) Sending w
      in w1\<lparr>tasks := tasks w1 @ [SingleSend c (fullMessage (template w))]\<rparr>)"

definition resumeSingle :: "candidate \<Rightarrow> jsstring \<Rightarrow> world \<Rightarrow> world" where
  \<comment> \<open>\<open>executeSend\<close> after its \<open>await\<close>. An exception of \<open>openWhatsApp\<close> rejects the promise
      of the \<open>async\<close> function, which nothing awaits: the handler ends there.\<close>
  "resumeSingle c finalMessage w =
     (case openWhatsApp finalMessage c w of
        Inl err \<Rightarrow> w
      | Inr (success, w2) \<Rightarrow>
          (if success then handleUpdateStatus (cid c) Sent w2
           else (let w3 = handleUpdateStatus (cid c) Failed w2
                 in w3\<lparr>alerts := alerts w3
                         @ [js ''Could not open WhatsApp for '' @ name c
                              @ js ''. Please check popup blockers.'']\<rparr>)))"

definition handleSingleSendClick :: "candidate \<Rightarrow> pq_state \<Rightarrow> pq_state" where
  "handleSingleSendClick c q = q\<lparr>candidateToConfirm := Some c\<rparr>"

definition confirmSingleSend :: "pq_state \<times> world \<Rightarrow> pq_state \<times> world" where
  "confirmSingleSend qw =
     (case candidateToConfirm (fst qw) of
        Some c \<Rightarrow> ((fst qw)\<lparr>candidateToConfirm := None\<rparr>, executeSend c (snd qw))
      | None \<Rightarrow> qw)"

definition handleBulkSendClick :: "pq_state \<times> world \<Rightarrow> pq_state" where
  "handleBulkSendClick qw =
     (if pendingCount (snd qw) = 0 then fst qw
      else (fst qw)\<lparr>bulkActionType := Some All, showBulkConfirm := True\<rparr>)"

definition handleSelectedSendClick :: "pq_state \<Rightarrow> pq_state" where
  "handleSelectedSendClick q =
     (if selectedIds q = {} then q
      else q\<lparr>bulkActionType := Some Selected, showBulkConfirm := True\<rparr>)"

definition processCandidateList :: "candidate list \<Rightarrow> pq_state \<times> world \<Rightarrow> pq_state \<times> world" where
  \<comment> \<open>\<open>processCandidateList\<close> up to its first \<open>await\<close>; with nothing to process it runs to
      its end at once\<close>
  "processCandidateList candidatesToProcess qw =
     (let q = fst qw; w = snd qw;
          q1 = q\<lparr>showBulkConfirm := False, isBulkSending := True\<rparr>;
          q2 = (if bulkActionType q = Some Selected then q1\<lparr>selectedIds := {}\<rparr> else q1)
      in case candidatesToProcess of
           [] \<Rightarrow> (q2\<lparr>isBulkSending := False, bulkActionType := None\<rparr>, w)
         | c # rest \<Rightarrow>
             (let w1 = handleUpdateStatus (cid c) Sending w
              in (q2, w1\<lparr>tasks := tasks w1 @ [BulkSend c rest (fullMessage (template w))]\<rparr>)))"

definition resumeBulk :: "candidate \<Rightarrow> candidate list \<Rightarrow> jsstring \<Rightarrow> world \<Rightarrow> world" where
  \<comment> \<open>the loop of \<open>processCandidateList\<close> from the end of one \<open>await\<close> to the next, or to
      the end of the function. An exception of \<open>openWhatsApp\<close> ends the function there:
      the loop has no \<open>try\<close>.\<close>
  "resumeBulk c rest finalMessage w =
     (case openWhatsApp finalMessage c w of
        Inl err \<Rightarrow> w
      | Inr (success, w2) \<Rightarrow>
          (let w3 = handleUpdateStatus (cid c) (if success then Sent else Failed) w2
           in case rest of
                [] \<Rightarrow>
                  w3\<lparr>queue := map_option (\<lambda>q. q\<lparr>isBulkSending := False, bulkActionType := None\<rparr>)
                                 (queue w3)\<rparr>
              | c' # rest' \<Rightarrow>
                  (let w4 = handleUpdateStatus (cid c') Sending w3
                   in w4\<lparr>tasks := tasks w4 @ [BulkSend c' rest' finalMessage]\<rparr>)))"

definition confirmBulkSend :: "pq_state \<times> world \<Rightarrow> pq_state \<times> world" where
  "confirmBulkSend qw =
     (let targets =
            (case bulkActionType (fst qw) of
               Some All \<Rightarrow> filter (\<lambda>c. status c = Pending) (candidates (snd qw))
             | Some Selected \<Rightarrow> filter (\<lambda>c. cid c \<in> selectedIds (fst qw)) (candidates (snd qw))
             | None \<Rightarrow> [])
      in processCandidateList targets qw)"

definition handleRetry :: "candidate \<Rightarrow> pq_state \<Rightarrow> pq_state" where
  "handleRetry c q = q\<lparr>candidateToConfirm := Some c\<rparr>"

definition toggleSelection :: "jsstring \<Rightarrow> pq_state \<Rightarrow> pq_state" where
  "toggleSelection i q =
     (if i \<in> selectedIds q then q\<lparr>selectedIds := selectedIds q - {i}\<rparr>
      else q\<lparr>selectedIds := insert i (selectedIds q)\<rparr>)"

definition toggleSelectAll :: "pq_state \<times> world \<Rightarrow> pq_state" where
  "toggleSelectAll qw =
     (if card (selectedIds (fst qw)) = length (candidates (snd qw))
      then (fst qw)\<lparr>selectedIds := {}\<rparr>
      else (fst qw)\<lparr>selectedIds := set (map cid (candidates (snd qw)))\<rparr>)"

fun skipEach :: "jsstring set \<Rightarrow> candidate list \<Rightarrow> world \<Rightarrow> world" where
  \<comment> \<open>the \<open>forEach\<close> of \<open>handleBulkSkip\<close>, over the roster as rendered\<close>
  "skipEach sel [] w = w"
| "skipEach sel (c # cs) w =
     skipEach sel cs
       (if cid c \<in> sel \<and> status c = Pending then handleUpdateStatus (cid c) Skipped w else w)"

definition handleBulkSkip :: "pq_state \<times> world \<Rightarrow> pq_state \<times> world" where
  "handleBulkSkip qw =
     ((fst qw)\<lparr>selectedIds := {}\<rparr>,
      skipEach (selectedIds (fst qw)) (candidates (snd qw)) (snd qw))"

fun retryEach :: "jsstring set \<Rightarrow> candidate list \<Rightarrow> world \<Rightarrow> world" where
  \<comment> \<open>the \<open>forEach\<close> of \<open>handleBulkRetry\<close>\<close>
  "retryEach sel [] w = w"
| "retryEach sel (c # cs) w =
     retryEach sel cs (if cid c \<in> sel then handleUpdateStatus (cid c) Pending w else w)"

definition handleBulkRetry :: "pq_state \<times> world \<Rightarrow> pq_state \<times> world" where
  "handleBulkRetry qw =
     ((fst qw)\<lparr>selectedIds := {}\<rparr>,
      retryEach (selectedIds (fst qw)) (candidates (snd qw)) (snd qw))"

text \<open>
  The controls of the queue as rendered. A control acts only while it is on screen and
  enabled: the row buttons follow the candidate's status and \<open>isBulkSending\<close>, the dialog
  shows the single confirmation when \<open>candidateToConfirm\<close> is set and the bulk one
  otherwise, the action bar replaces the header while the selection is not empty. The
  checkboxes and the action bar are not disabled while a send is under way.
\<close>

datatype event =
    ClickSkip candidate | ClickSend candidate | ClickRetry candidate
  | ConfirmSingle | CancelSingle
  | ClickSendAll | ClickSendSelected | ConfirmBulk | CancelBulk
  | ToggleSelection candidate | ToggleSelectAll | ClearSelection
  | ClickBulkSkip | ClickBulkRetry

fun fire :: "event \<Rightarrow> pq_state \<times> world \<Rightarrow> pq_state \<times> world" where
  "fire (ClickSkip c) (q, w) =
     (if c \<in> set (candidates w) \<and> status c = Pending \<and> \<not> isBulkSending q
      then (q, handleUpdateStatus (cid c) Skipped w) else (q, w))"
| "fire (ClickSend c) (q, w) =
     (if c \<in> set (candidates w) \<and> status c = Pending \<and> \<not> isBulkSending q
      then (handleSingleSendClick c q, w) else (q, w))"
| "fire (ClickRetry c) (q, w) =
     (if c \<in> set (candidates w) \<and> status c \<noteq> Pending \<and> \<not> isBulkSending q
      then (handleRetry c q, w) else (q, w))"
| "fire ConfirmSingle (q, w) =
     (if candidateToConfirm q \<noteq> None then confirmSingleSend (q, w) else (q, w))"
| "fire CancelSingle (q, w) =
     (if candidateToConfirm q \<noteq> None then (q\<lparr>candidateToConfirm := None\<rparr>, w) else (q, w))"
| "fire ClickSendAll (q, w) =
     (if isBulkSending q \<or> pendingCount w = 0 then (q, w) else (handleBulkSendClick (q, w), w))"
| "fire ClickSendSelected (q, w) =
     (if selectedIds q = {} then (q, w) else (handleSelectedSendClick q, w))"
| "fire ConfirmBulk (q, w) =
     (if candidateToConfirm q = None \<and> showBulkConfirm q then confirmBulkSend (q, w) else (q, w))"
| "fire CancelBulk (q, w) =
     (if candidateToConfirm q = None \<and> showBulkConfirm q
      then (q\<lparr>showBulkConfirm := False\<rparr>, w) else (q, w))"
| "fire (ToggleSelection c) (q, w) =
     (if c \<in> set (candidates w) then (toggleSelection (cid c) q, w) else (q, w))"
| "fire ToggleSelectAll (q, w) =
     (if selectedIds q = {} then (toggleSelectAll (q, w), w) else (q, w))"
| "fire ClearSelection (q, w) =
     (if selectedIds q = {} then (q, w) else (q\<lparr>selectedIds := {}\<rparr>, w))"
| "fire ClickBulkSkip (q, w) =
     (if selectedIds q = {} then (q, w) else handleBulkSkip (q, w))"
| "fire ClickBulkRetry (q, w) =
     (if selectedIds q = {} then (q, w) else handleBulkRetry (q, w))"

definition onReset :: "world \<Rightarrow> world" where
  \<comment> \<open>the Start Over button of the queue, disabled while a bulk send runs\<close>
  "onReset w =
     (case queue w of
        Some q \<Rightarrow> (if isBulkSending q then w else handleReset w)
      | None \<Rightarrow> w)"

definition queueEvent :: "event \<Rightarrow> world \<Rightarrow> world" where
  \<comment> \<open>an event of the mounted queue, with the component's state written back\<close>
  "queueEvent e w =
     (case queue w of
        Some q \<Rightarrow> (let r = fire e (q, w) in (snd r)\<lparr>queue := Some (fst r)\<rparr>)
      | None \<Rightarrow> w)"

fun resume :: "task \<Rightarrow> world \<Rightarrow> world" where
  "resume (SingleSend c finalMessage) w = resumeSingle c finalMessage w"
| "resume (BulkSend c rest finalMessage) w = resumeBulk c rest finalMessage w"


fun work :: "task \<Rightarrow> nat" where
  \<comment> \<open>the timers a waiting send can still set off\<close>
  "work (SingleSend c finalMessage) = 1"
| "work (BulkSend c rest finalMessage) = Suc (length rest)"

function settle :: "world \<Rightarrow> world" where
  \<comment> \<open>the timers fire, the oldest waiting send first, until no send waits: what happens
      when the user touches nothing until the sends under way are over. With one send
      under way, or bulk sends only, this is the order of the timers; \<open>timer\<close> above fires
      any of them.\<close>
  "settle w = (case tasks w of [] \<Rightarrow> w | t # ts \<Rightarrow> settle (resume t (w\<lparr>tasks := ts\<rparr>)))"
  by pat_completeness auto

termination
proof (relation "measure (\<lambda>w. sum_list (map work (tasks w)))")
  show "wf (measure (\<lambda>w. sum_list (map work (tasks w))))" by simp
next
  fix w :: world and t ts
  assume ts: "tasks w = t # ts"
  define v where "v = w\<lparr>tasks := ts\<rparr>"
  have v: "tasks v = ts" by (simp add: v_def)
  have upd: "tasks (handleUpdateStatus i s x) = tasks x" for i s x
    by (simp add: handleUpdateStatus_def)
  have opn: "tasks y = tasks x" if "openWhatsApp m c x = Inr (b, y)" for m c x b y
    using that by (auto simp: openWhatsApp_def Let_def split: if_splits option.splits)
  have "sum_list (map work (tasks (resume t v))) < sum_list (map work (t # ts))"
  proof (cases t)
    case (SingleSend c m)
    have "tasks (resume t v) = ts"
      by (auto simp: SingleSend resumeSingle_def upd v Let_def dest: opn split: sum.splits)
    then show ?thesis by (simp add: SingleSend)
  next
    case (BulkSend c rest m)
    show ?thesis
    proof (cases "openWhatsApp m c v")
      case (Inl e)
      then have "tasks (resume t v) = ts" by (simp add: BulkSend resumeBulk_def v)
      then show ?thesis by (simp add: BulkSend)
    next
      case (Inr r)
      obtain b y where r: "r = (b, y)" by (cases r)
      from Inr r have y: "tasks y = ts" using opn [of m c v b y] v by simp
      show ?thesis
      proof (cases rest)
        case Nil
        with Inr r y have "tasks (resume t v) = ts"
          by (simp add: BulkSend resumeBulk_def upd Let_def)
        then show ?thesis by (simp add: BulkSend)
      next
        case (Cons c' rest')
        with Inr r y have "tasks (resume t v) = ts @ [BulkSend c' rest' m]"
          by (simp add: BulkSend resumeBulk_def upd Let_def)
        then show ?thesis by (simp add: BulkSend Cons)
      qed
    qed
  qed
  then show "(resume t (w\<lparr>tasks := ts\<rparr>), w) \<in> measure (\<lambda>w. sum_list (map work (tasks w)))"
    by (simp add: ts v_def)
qed

declare settle.simps [simp del]

section \<open>Observing status changes\<close>

fun transitions :: "candidate list \<Rightarrow> (jsstring \<times> status) list \<Rightarrow> (status \<times> status) list" where
  \<comment> \<open>the changes \<open>(from, to)\<close> that a sequence of status updates makes on a roster\<close>
  "transitions r [] = []"
| "transitions r (u # us) =
     map (\<lambda>c. (status c, snd u)) (filter (\<lambda>c. cid c = fst u) r)
       @ transitions (map (\<lambda>c. if cid c = fst u then c\<lparr>status := snd u\<rparr> else c) r) us"

definition since :: "world \<Rightarrow> world \<Rightarrow> (jsstring \<times> status) list" where
  \<comment> \<open>the status updates made between an earlier and a later state\<close>
  "since w w' = drop (length (history w)) (history w')"

section \<open>Vocabulary of the specification\<close>








definition rawPhone :: "GeminiMappingResponse \<Rightarrow> row \<Rightarrow> jsstring" where
  \<comment> \<open>the mapped phone value of a row as read from the file, empty when absent\<close>
  "rawPhone m r = orElse (rowGet r (phone_column m)) []"

definition rosterOf :: "js_error + world \<Rightarrow> candidate list" where
  \<comment> \<open>the roster after an upload; none when the upload threw\<close>
  "rosterOf r = (case r of Inl e \<Rightarrow> [] | Inr w \<Rightarrow> candidates w)"

definition storedStatus :: "db_row \<Rightarrow> status" where
  "storedStatus r = (case row_status r of None \<Rightarrow> Pending | Some s \<Rightarrow> s)"

definition schemaAbsent :: "backend \<Rightarrow> bool" where
  \<comment> \<open>the next request to the store is answered with the schema-absent error\<close>
  "schemaAbsent b = (case answer b of Some e \<Rightarrow> missingTable e | None \<Rightarrow> False)"

fun substitute :: "jsstring \<Rightarrow> jsstring \<Rightarrow> jsstring" where
  \<comment> \<open>every occurrence of the token \<open>{{name}}\<close>, read left to right, replaced by a text\<close>
  "substitute rep [] = []"
| "substitute rep (c # cs) =
     (if startsWith (c # cs) nameToken then rep @ substitute rep (drop 7 cs)
      else c # substitute rep cs)"

definition firstToken :: "jsstring \<Rightarrow> jsstring" where
  \<comment> \<open>a name up to its first space, the whole name when it has none\<close>
  "firstToken n = takeWhile (\<lambda>u. u \<noteq> 0x20) n"

definition blocks :: "MessageTemplate \<Rightarrow> jsstring" where
  \<comment> \<open>intro, questions joined by newline, outro, with an empty line between the blocks\<close>
  "blocks t =
     intro t @ [0x0A, 0x0A] @ join [0x0A] (questions t) @ [0x0A, 0x0A] @ outro t"

definition throws :: "jsstring \<Rightarrow> candidate \<Rightarrow> bool" where
  \<comment> \<open>building the link of the candidate throws: the phone has a digit and the
      personalized message holds a surrogate without its partner\<close>
  "throws m c =
     (formatPhone (phone c) \<noteq> [] \<and> encodeURIComponent (personalizedMessage m c) = None)"

definition attempts :: "candidate list \<Rightarrow> status list \<Rightarrow> (jsstring \<times> status) list" where
  \<comment> \<open>the status updates of a batch processed one candidate after the other: each is
      marked \<open>sending\<close>, then given its outcome\<close>
  "attempts cs outs = concat (map (\<lambda>(c, out). [(cid c, Sending), (cid c, out)]) (zip cs outs))"

definition onlyStatusChanged :: "candidate \<Rightarrow> candidate \<Rightarrow> bool" where
  "onlyStatusChanged x x' = (x' = x\<lparr>status := status x'\<rparr>)"



section \<open>Sample inputs\<close>


definition blankStore :: backend where
  "blankStore = \<lparr>table = Some [], fault = None, requests = []\<rparr>"

definition noTable :: backend where
  "noTable = \<lparr>table = None, fault = None, requests = []\<rparr>"

definition offlineOver :: "backend \<Rightarrow> db" where
  "offlineOver b = \<lparr>isOfflineMode = True, remote = b\<rparr>"

definition online :: "backend \<Rightarrow> db" where
  "online b = \<lparr>isOfflineMode = False, remote = b\<rparr>"

definition unavailable :: "jsstring list \<Rightarrow> row \<Rightarrow> mapping_reply" where
  \<comment> \<open>the request to the service fails\<close>
  "unavailable headers sampleRow = Threw RequestFailed"



definition toneUnavailable :: "jsstring \<Rightarrow> tone \<Rightarrow> js_error + jsstring option" where
  "toneUnavailable currentMessage t = Inl RequestFailed"

definition quotedTemplate :: MessageTemplate where
  "quotedTemplate =
     \<lparr>intro = js ''Say '' @ [0x22] @ js ''hi'' @ [0x22] @ js '' to {{name}}'',
      questions = [js ''Q1?''], outro = js ''Bye''\<rparr>"

definition helloTemplate :: MessageTemplate where
  "helloTemplate = \<lparr>intro = js ''Hi {{name}}'', questions = [js ''Q1?''], outro = js ''Bye''\<rparr>"

definition bobRow :: row where
  "bobRow = [(js ''Name'', js ''Bob''), (js ''Phone'', js ''12'')]"

definition annRow :: row where
  "annRow = [(js ''Name'', js ''Ann''), (js ''Phone'', js ''+1 (555) 012-3456'')]"

definition deeRow :: row where
  "deeRow = [(js ''Name'', js ''Dee''), (js ''Phone'', js ''(12) 3-4'')]"

definition noon :: "nat \<Rightarrow> nat" where
  "noon idx = 7"

definition allowed :: "nat \<Rightarrow> bool" where
  "allowed n = True"

definition afterUpload :: world where
  \<comment> \<open>a page load on an empty table, then the upload of one valid row\<close>
  "afterUpload =
     (case handleDataLoaded unavailable noon [annRow] (startup blankStore allowed) of
        Inr w \<Rightarrow> w
      | Inl e \<Rightarrow> startup blankStore allowed)"

definition interruptedStore :: backend where
  \<comment> \<open>the store when the page is closed during the delay of a send: the first status
      update of the attempt has been written, the second has not\<close>
  "interruptedStore = remote (db (handleUpdateStatus (js ''c-7-0'') Sending afterUpload))"

definition annCandidate :: candidate where
  "annCandidate =
     \<lparr>cid = js ''c-7-0'', name = js ''Ann'', phone = js ''+1 (555) 012-3456'',
      originalRow = annRow, status = Pending\<rparr>"

definition janeDoe :: candidate where
  "janeDoe =
     \<lparr>cid = js ''c-7-1'', name = js ''Jane Doe'', phone = js ''+1 (555) 012-3456'',
      originalRow = [], status = Pending\<rparr>"

definition dollarName :: candidate where
  "dollarName = janeDoe\<lparr>name := js ''A$$AP Rocky''\<rparr>"

definition sentBob :: candidate where
  "sentBob =
     \<lparr>cid = js ''c-7-1'', name = js ''Bob'', phone = js ''123456'', originalRow = [],
      status = Sent\<rparr>"


definition halfPair :: candidate where
  \<comment> \<open>a name that starts with the first half of a surrogate pair\<close>
  "halfPair =
     \<lparr>cid = js ''c-7-0'', name = [0xD83D] @ js ''Ann Lee'', phone = js ''123456'',
      originalRow = [], status = Pending\<rparr>"

definition pendingBob :: candidate where
  "pendingBob = sentBob\<lparr>status := Pending\<rparr>"

definition queueOver :: "candidate list \<Rightarrow> world" where
  \<comment> \<open>the queue, just mounted, over a roster, with the short template and popups allowed\<close>
  "queueOver r =
     (setStep QUEUE afterUpload)\<lparr>candidates := r, template := helloTemplate\<rparr>"


definition selectedForSend :: pq_state where
  \<comment> \<open>the queue after Ann is ticked and Send is clicked in the action bar\<close>
  "selectedForSend =
     initialQueue\<lparr>selectedIds := {js ''c-7-0''}, bulkActionType := Some Selected,
                  showBulkConfirm := True\<rparr>"

definition selectedThenAll :: pq_state where
  \<comment> \<open>the queue after Ann is ticked and Send to All Pending is clicked\<close>
  "selectedThenAll =
     initialQueue\<lparr>selectedIds := {js ''c-7-0''}, bulkActionType := Some All,
                  showBulkConfirm := True\<rparr>"


section \<open>Auxiliary facts\<close>




















lemma mkCandidate_fields [simp]:
  "originalRow (mkCandidate m now ir) = snd ir"
  "phone (mkCandidate m now ir) = rawPhone m (snd ir)"
  "status (mkCandidate m now ir) = Pending"
  by (simp_all add: mkCandidate_def rawPhone_def)

lemma mappedCandidates_rows:
  "map originalRow (filter (\<lambda>c. 5 < length (phone c)) (map (mkCandidate m now) (enumerate n rs)))
     = filter (\<lambda>r. 5 < length (rawPhone m r)) rs"
  by (induction rs arbitrary: n) simp_all

lemma mappedCandidates_phones:
  "map phone (filter (\<lambda>c. 5 < length (phone c)) (map (mkCandidate m now) (enumerate n rs)))
     = filter (\<lambda>p. 5 < length p) (map (rawPhone m) rs)"
  by (induction rs arbitrary: n) simp_all

lemma mappedCandidates_pending:
  "\<forall>c\<in>set (mappedCandidates m now rs). status c = Pending"
  by (auto simp: mappedCandidates_def)

lemma setStep_fields [simp]:
  "candidates (setStep s w) = candidates w"
  "db (setStep s w) = db w"
  "history (setStep s w) = history w"
  "tasks (setStep s w) = tasks w"
  "popups (setStep s w) = popups w"
  "opened (setStep s w) = opened w"
  "template (setStep s w) = template w"
  "step (setStep s w) = s"
  by (simp_all add: setStep_def)

lemma handleDataLoaded_roster:
  "rosterOf (handleDataLoaded ai now (r0 # rest) w)
     = mappedCandidates (analyzeCsvHeaders ai (map fst r0) r0) now (r0 # rest)"
  by (simp add: handleDataLoaded_def rosterOf_def Let_def)

lemma lower_Name_Phone:
  "toLowerCase (js ''Name'') = js ''name''" "toLowerCase (js ''Phone'') = js ''phone''"
  by (simp_all add: toLowerCase_def lowerUnit_def js_def)

lemma nameFallback_Name_Phone: "nameFallback [js ''Name'', js ''Phone''] = Some (js ''Name'')"
  by (simp add: nameFallback_def lower_Name_Phone) (simp add: js_def)

lemma phoneFallback_Name_Phone: "phoneFallback [js ''Name'', js ''Phone''] = Some (js ''Phone'')"
  by (simp add: phoneFallback_def lower_Name_Phone) (simp add: js_def)

lemma fallback_Name_Phone:
  "fallback [js ''Name'', js ''Phone''] =
     \<lparr>name_column = Some (js ''Name''), phone_column = Some (js ''Phone''),
      reasoning = Some (js ''Fallback logic due to API error'')\<rparr>"
  by (simp add: fallback_def nameFallback_Name_Phone phoneFallback_Name_Phone)

lemma rawPhone_Phone:
  "rawPhone (fallback [js ''Name'', js ''Phone'']) [(js ''Name'', n), (js ''Phone'', p)] = p"
  by (simp add: fallback_Name_Phone rawPhone_def rowGet_def orElse_def) (simp add: js_def)

lemma bob_ann_roster:
  "length (rosterOf (handleDataLoaded unavailable now [bobRow, annRow] w)) = 1"
  by (simp add: handleDataLoaded_roster mappedCandidates_def bobRow_def annRow_def
      analyzeCsvHeaders_def unavailable_def rawPhone_Phone)
     (simp add: js_def)

lemma dec_7: "dec 7 = js ''7''" "dec 0 = js ''0''"
  by (simp_all add: dec.simps js_def)

lemma mkCandidate_ann:
  "mkCandidate (fallback [js ''Name'', js ''Phone'']) noon (0, annRow) = annCandidate"
  by (simp add: mkCandidate_def fallback_Name_Phone annRow_def annCandidate_def rowGet_def
      orElse_def noon_def dec_7) (simp add: js_def)

lemma afterUpload_candidates: "candidates afterUpload = [annCandidate]"
proof -
  have "mappedCandidates (fallback [js ''Name'', js ''Phone'']) noon [annRow] = [annCandidate]"
    by (simp add: mappedCandidates_def mkCandidate_ann) (simp add: annCandidate_def js_def)
  then show ?thesis
    by (simp add: afterUpload_def handleDataLoaded_def analyzeCsvHeaders_def unavailable_def
        annRow_def Let_def)
qed

lemma annRow_stored:
  "toRow annCandidate =
     \<lparr>row_id = js ''c-7-0'', row_name = js ''Ann'', row_phone = js ''+1 (555) 012-3456'',
      row_status = Some Pending, original_row = Some annRow\<rparr>"
  by (simp add: toRow_def annCandidate_def)

lemma afterUpload_db:
  "db afterUpload = \<lparr>isOfflineMode = False,
      remote = \<lparr>table = Some [toRow annCandidate], fault = None,
                requests = [Delete, Upsert [toRow annCandidate]]\<rparr>\<rparr>"
proof -
  have m: "mappedCandidates (fallback [js ''Name'', js ''Phone'']) noon [annRow] = [annCandidate]"
    by (simp add: mappedCandidates_def mkCandidate_ann) (simp add: annCandidate_def js_def)
  have c: "clearCandidates (db (startup blankStore allowed))
             = \<lparr>isOfflineMode = False,
                remote = \<lparr>table = Some [], fault = None, requests = [Delete]\<rparr>\<rparr>"
    by (simp add: startup_def blankStore_def clearCandidates_def afterWrite_def
        supabase_delete_def answer_def)
  have a: "addCandidates [annCandidate] \<lparr>isOfflineMode = False,
                remote = \<lparr>table = Some [], fault = None, requests = [Delete]\<rparr>\<rparr>
             = \<lparr>isOfflineMode = False,
                remote = \<lparr>table = Some [toRow annCandidate], fault = None,
                          requests = [Delete, Upsert [toRow annCandidate]]\<rparr>\<rparr>"
    by (simp add: addCandidates_def afterWrite_def supabase_upsert_def answer_def upsertRow_def)
  show ?thesis
    by (simp add: afterUpload_def handleDataLoaded_def analyzeCsvHeaders_def unavailable_def
        annRow_def [symmetric] Let_def)
      (simp add: annRow_def m [unfolded annRow_def] c a [unfolded annRow_def])
qed

lemma interruptedStore_table:
  "table interruptedStore = Some [(toRow annCandidate)\<lparr>row_status := Some Sending\<rparr>]"
  "fault interruptedStore = None"
  by (simp_all add: interruptedStore_def handleUpdateStatus_def afterUpload_db updateStatus_def
      afterWrite_def supabase_update_def answer_def annRow_stored)

lemma loadCandidates_statuses:
  assumes "fault b = None" "table b = Some rows"
  shows "map status (candidates (loadCandidates (startup b p))) = map storedStatus rows"
proof -
  have g: "fst (getAllCandidates \<lparr>isOfflineMode = False, remote = b\<rparr>)
             = \<lparr>data = map mapRow rows, error = None\<rparr>"
    using assms by (simp add: getAllCandidates_def supabase_select_def answer_def)
  have m: "map status (map mapRow rows) = map storedStatus rows"
    by (simp add: mapRow_def storedStatus_def)
  show ?thesis
  proof (cases "rows = []")
    case True
    then show ?thesis using g
      by (simp add: loadCandidates_def startup_def split_beta Let_def)
  next
    case False
    then show ?thesis using g m
      by (simp add: loadCandidates_def startup_def split_beta Let_def)
  qed
qed

lemma handleBulkSkip_selection: "selectedIds (fst (handleBulkSkip qw)) = {}"
  by (simp add: handleBulkSkip_def)

lemma handleBulkRetry_selection: "selectedIds (fst (handleBulkRetry qw)) = {}"
  by (simp add: handleBulkRetry_def)

lemma confirmBulkSend_selection:
  "selectedIds (fst (confirmBulkSend qw))
     = (if bulkActionType (fst qw) = Some Selected then {} else selectedIds (fst qw))"
  by (simp add: confirmBulkSend_def processCandidateList_def Let_def split: list.splits)

lemma handleReset_queue: "queue (handleReset w) = None"
  by (simp add: handleReset_def setStep_def)

lemma handleDataLoaded_queue: "handleDataLoaded ai now rawData w = Inr w' \<Longrightarrow> queue w' = None"
  by (auto simp: handleDataLoaded_def setStep_def Let_def split: list.splits)

lemma mount_selection:
  "queue w = None \<Longrightarrow> map_option selectedIds (queue (setStep QUEUE w)) = Some {}"
  by (simp add: setStep_def initialQueue_def)

lemma afterUpload_Inr:
  "handleDataLoaded unavailable noon [annRow] (startup blankStore allowed) = Inr afterUpload"
  by (simp add: afterUpload_def handleDataLoaded_def Let_def)

lemma getAllCandidates_absent:
  assumes "schemaAbsent (remote d)"
  shows "fst (getAllCandidates d) = \<lparr>data = [], error = Some (js ''missing_table'')\<rparr>"
    and "isOfflineMode (snd (getAllCandidates d))"
  using assms
  by (auto simp: schemaAbsent_def getAllCandidates_def supabase_select_def split: option.splits)

lemma getAllCandidates_present:
  assumes "\<not> schemaAbsent (remote d)"
  shows "isOfflineMode (snd (getAllCandidates d)) = isOfflineMode d"
  using assms
  by (auto simp: schemaAbsent_def getAllCandidates_def supabase_select_def
      split: option.splits sum.splits)

lemma getAllCandidates_stays_offline:
  "isOfflineMode d \<Longrightarrow> isOfflineMode (snd (getAllCandidates d))"
  by (auto simp: getAllCandidates_def supabase_select_def split: option.splits sum.splits)

lemma getAllCandidates_rows:
  "fault (remote d) = None \<Longrightarrow> table (remote d) = Some rows \<Longrightarrow>
   fst (getAllCandidates d) = \<lparr>data = map mapRow rows, error = None\<rparr>"
  by (simp add: getAllCandidates_def supabase_select_def answer_def)

lemma afterWrite_absent:
  "schemaAbsent b \<Longrightarrow> fst r = answer b \<Longrightarrow> isOfflineMode (afterWrite d r)"
  by (auto simp: schemaAbsent_def afterWrite_def split: option.splits)

lemma writes_absent:
  assumes "schemaAbsent (remote d)"
  shows "cs \<noteq> [] \<Longrightarrow> isOfflineMode (addCandidates cs d)"
    and "isOfflineMode (updateStatus i s d)"
    and "isOfflineMode (clearCandidates d)"
  using assms
  by (auto simp: addCandidates_def updateStatus_def clearCandidates_def supabase_upsert_def
      supabase_update_def supabase_delete_def intro!: afterWrite_absent)

lemma writes_offline:
  assumes "isOfflineMode d"
  shows "addCandidates cs d = d" and "updateStatus i s d = d" and "clearCandidates d = d"
  using assms by (simp_all add: addCandidates_def updateStatus_def clearCandidates_def)

lemma remote_getAll:
  "remote (snd (getAllCandidates d)) = (remote d)\<lparr>requests := requests (remote d) @ [Select]\<rparr>"
  by (auto simp: getAllCandidates_def supabase_select_def split: option.splits sum.splits)

lemma retryConnection_flag:
  "isOfflineMode (snd (retryConnection d)) = schemaAbsent (remote d)"
proof (cases "schemaAbsent (remote d)")
  case True
  then have "schemaAbsent (remote (d\<lparr>isOfflineMode := False\<rparr>))" by simp
  from getAllCandidates_absent(2) [OF this] True show ?thesis
    by (simp add: retryConnection_def split_beta)
next
  case False
  then have "\<not> schemaAbsent (remote (d\<lparr>isOfflineMode := False\<rparr>))" by simp
  from getAllCandidates_present [OF this] False show ?thesis
    by (simp add: retryConnection_def split_beta)
qed

lemma retryConnection_true:
  "fst (retryConnection d) \<Longrightarrow> \<not> isOfflineMode (snd (retryConnection d))"
proof -
  assume r: "fst (retryConnection d)"
  have "\<not> schemaAbsent (remote d)"
  proof
    assume "schemaAbsent (remote d)"
    then have "schemaAbsent (remote (d\<lparr>isOfflineMode := False\<rparr>))" by simp
    from getAllCandidates_absent(1) [OF this] r show False
      by (simp add: retryConnection_def split_beta)
  qed
  then show ?thesis by (simp add: retryConnection_flag)
qed

lemma schemaAbsent_noTable: "schemaAbsent noTable"
  by (simp add: schemaAbsent_def noTable_def answer_def missingTable_def)

lemma schemaAbsent_interrupted: "\<not> schemaAbsent interruptedStore"
  by (simp add: schemaAbsent_def answer_def interruptedStore_table)

lemma mapRow_interrupted:
  "mapRow ((toRow annCandidate)\<lparr>row_status := Some Sending\<rparr>) = annCandidate\<lparr>status := Sending\<rparr>"
  by (simp add: mapRow_def toRow_def annCandidate_def)

lemma getSubstitution_plain:
  "0x24 \<notin> set r \<Longrightarrow> getSubstitution m b a r = r"
  by (induction m b a r rule: getSubstitution.induct) auto

lemma replaceName_plain:
  "0x24 \<notin> set rep \<Longrightarrow> replaceName rep pre s = substitute rep s"
  by (induction rep pre s rule: replaceName.induct) (simp_all add: getSubstitution_plain)

lemma isWhiteSpace_newline: "isWhiteSpace 0x0A"
  by (simp add: isWhiteSpace_def)

lemma trim_Cons_ws: "isWhiteSpace c \<Longrightarrow> trim (c # s) = trim s"
  by (simp add: trim_def)

lemma trim_snoc_ws:
  assumes "isWhiteSpace c"
  shows "trim (s @ [c]) = trim s"
proof (cases "\<forall>x\<in>set s. isWhiteSpace x")
  case True
  then have e: "dropWhile isWhiteSpace (s @ [c]) = []" "dropWhile isWhiteSpace s = []"
    using assms unfolding dropWhile_eq_Nil_conv by auto
  show ?thesis unfolding trim_def by (simp only: e)
next
  case False
  then obtain x where "x \<in> set s" "\<not> isWhiteSpace x" by auto
  then have "dropWhile isWhiteSpace (s @ [c]) = dropWhile isWhiteSpace s @ [c]"
    by (rule dropWhile_append1)
  then show ?thesis using assms by (simp add: trim_def)
qed

lemma fullMessage_blocks: "fullMessage t = trim (blocks t)"
proof -
  have "fullMessage t = trim (0x0A # (blocks t @ [0x0A]))"
    by (simp add: fullMessage_def blocks_def)
  also have "\<dots> = trim (blocks t @ [0x0A])"
    by (rule trim_Cons_ws [OF isWhiteSpace_newline])
  also have "\<dots> = trim (blocks t)"
    by (rule trim_snoc_ws [OF isWhiteSpace_newline])
  finally show ?thesis .
qed

lemma trim_edges:
  assumes "s \<noteq> []" "\<not> isWhiteSpace (hd s)" "\<not> isWhiteSpace (last s)"
  shows "trim s = s"
proof -
  from assms have "dropWhile isWhiteSpace s = s" by (cases s) simp_all
  moreover from assms have "dropWhile isWhiteSpace (rev s) = rev s"
    by (cases "rev s") (simp_all add: hd_rev [symmetric])
  ultimately show ?thesis by (simp add: trim_def)
qed

lemma namePart_cases:
  "namePart c = (if name c = [] then js ''Candidate'' else firstToken (name c))"
  by (simp add: namePart_def orElse_def firstToken_def) (simp add: js_def)

lemma firstToken_no_space: "0x20 \<notin> set n \<Longrightarrow> firstToken n = n"
  by (auto simp: firstToken_def)

lemma personalizedMessage_named:
  assumes "name c \<noteq> []" "0x24 \<notin> set (firstToken (name c))"
  shows "personalizedMessage m c = substitute (firstToken (name c)) m"
  using assms by (simp add: personalizedMessage_def namePart_cases replaceName_plain)

lemma hello_blocks:
  "blocks helloTemplate = js ''Hi {{name}}'' @ [0x0A, 0x0A] @ js ''Q1?'' @ [0x0A, 0x0A] @ js ''Bye''"
  by (simp add: blocks_def helloTemplate_def)

lemma hello_message: "fullMessage helloTemplate = blocks helloTemplate"
  unfolding fullMessage_blocks
  by (rule trim_edges) (simp_all add: hello_blocks js_def isWhiteSpace_def)

lemma hello_jane:
  "personalizedMessage (fullMessage helloTemplate) janeDoe
     = js ''Hi Jane'' @ [0x0A, 0x0A] @ js ''Q1?'' @ [0x0A, 0x0A] @ js ''Bye''"
  by (simp add: hello_message hello_blocks personalizedMessage_def namePart_def orElse_def
      janeDoe_def nameToken_def js_def)

lemma dollar_name:
  "personalizedMessage (js ''Hi {{name}}'') dollarName = js ''Hi A$AP''"
  "substitute (firstToken (name dollarName)) (js ''Hi {{name}}'') = js ''Hi A$$AP''"
  by (simp_all add: personalizedMessage_def namePart_def orElse_def dollarName_def
      janeDoe_def nameToken_def firstToken_def js_def)

lemma handleUpdateStatus_fields [simp]:
  "history (handleUpdateStatus i s w) = history w @ [(i, s)]"
  "candidates (handleUpdateStatus i s w) =
     map (\<lambda>c. if cid c = i then c\<lparr>status := s\<rparr> else c) (candidates w)"
  "opened (handleUpdateStatus i s w) = opened w"
  "popups (handleUpdateStatus i s w) = popups w"
  "template (handleUpdateStatus i s w) = template w"
  "alerts (handleUpdateStatus i s w) = alerts w"
  "queue (handleUpdateStatus i s w) = queue w"
  "step (handleUpdateStatus i s w) = step w"
  "tasks (handleUpdateStatus i s w) = tasks w"
  by (simp_all add: handleUpdateStatus_def)

lemma ids_handleUpdateStatus [simp]:
  "map cid (candidates (handleUpdateStatus i s w)) = map cid (candidates w)"
proof -
  have "cid (if cid c = i then c\<lparr>status := s\<rparr> else c) = cid c" for c :: candidate
    by simp
  then show ?thesis by (simp add: comp_def)
qed

lemma openWhatsApp_empty:
  "formatPhone (phone c) = [] \<Longrightarrow> openWhatsApp m c w = Inr (False, w)"
  by (simp add: openWhatsApp_def)

lemma openWhatsApp_throws: "throws m c \<Longrightarrow> openWhatsApp m c w = Inl URIError"
  by (simp add: openWhatsApp_def throws_def)

lemma openWhatsApp_Inl: "openWhatsApp m c w = Inl e \<Longrightarrow> throws m c"
  by (auto simp: openWhatsApp_def throws_def Let_def split: if_splits option.splits)

lemma openWhatsApp_Inr:
  assumes "\<not> throws m c"
  shows "\<exists>b us. openWhatsApp m c w = Inr (b, w\<lparr>opened := opened w @ us\<rparr>)
                \<and> (formatPhone (phone c) = [] \<longrightarrow> us = [] \<and> \<not> b)"
proof (cases "formatPhone (phone c) = []")
  case True
  then have "openWhatsApp m c w = Inr (False, w\<lparr>opened := opened w @ []\<rparr>)"
    by (simp add: openWhatsApp_empty)
  with True show ?thesis by blast
next
  case False
  with assms obtain enc where "encodeURIComponent (personalizedMessage m c) = Some enc"
    by (auto simp: throws_def)
  with False have "openWhatsApp m c w
      = Inr (popups w (length (opened w)),
             w\<lparr>opened := opened w @ [js ''https://api.whatsapp.com/send?phone=''
                                        @ formatPhone (phone c) @ js ''&text='' @ enc]\<rparr>)"
    by (simp add: openWhatsApp_def Let_def)
  with False show ?thesis by blast
qed

lemma resumeSingle_throws: "throws m c \<Longrightarrow> resumeSingle c m w = w"
  by (simp add: resumeSingle_def openWhatsApp_throws)

lemma resumeSingle_returns:
  assumes "\<not> throws m c"
  shows "\<exists>out us as. (out = Sent \<or> out = Failed)
           \<and> (formatPhone (phone c) = [] \<longrightarrow> us = [] \<and> out = Failed)
           \<and> resumeSingle c m w
               = (handleUpdateStatus (cid c) out (w\<lparr>opened := opened w @ us\<rparr>))
                    \<lparr>alerts := alerts w @ as\<rparr>"
proof -
  from openWhatsApp_Inr [OF assms, of w] obtain b us
    where o: "openWhatsApp m c w = Inr (b, w\<lparr>opened := opened w @ us\<rparr>)"
      and e: "formatPhone (phone c) = [] \<longrightarrow> us = [] \<and> \<not> b"
    by blast
  show ?thesis
  proof (cases b)
    case True
    with o have "resumeSingle c m w
               = (handleUpdateStatus (cid c) Sent (w\<lparr>opened := opened w @ us\<rparr>))
                    \<lparr>alerts := alerts w @ []\<rparr>"
      by (simp add: resumeSingle_def handleUpdateStatus_def)
    with e True show ?thesis by blast
  next
    case False
    with o have "resumeSingle c m w
               = (handleUpdateStatus (cid c) Failed (w\<lparr>opened := opened w @ us\<rparr>))
                    \<lparr>alerts := alerts w @ [js ''Could not open WhatsApp for '' @ name c
                              @ js ''. Please check popup blockers.'']\<rparr>"
      by (simp add: resumeSingle_def Let_def)
    with e show ?thesis by blast
  qed
qed

lemma resumeBulk_throws: "throws m c \<Longrightarrow> resumeBulk c rest m w = w"
  by (simp add: resumeBulk_def openWhatsApp_throws)

lemma resumeBulk_last:
  assumes "\<not> throws m c"
  shows "\<exists>out us. (out = Sent \<or> out = Failed)
           \<and> (formatPhone (phone c) = [] \<longrightarrow> us = [] \<and> out = Failed)
           \<and> resumeBulk c [] m w
               = (handleUpdateStatus (cid c) out (w\<lparr>opened := opened w @ us\<rparr>))
                    \<lparr>queue := map_option (\<lambda>q. q\<lparr>isBulkSending := False, bulkActionType := None\<rparr>)
                                (queue w)\<rparr>"
proof -
  from openWhatsApp_Inr [OF assms, of w] obtain b us
    where o: "openWhatsApp m c w = Inr (b, w\<lparr>opened := opened w @ us\<rparr>)"
      and e: "formatPhone (phone c) = [] \<longrightarrow> us = [] \<and> \<not> b"
    by blast
  from o have "resumeBulk c [] m w
               = (handleUpdateStatus (cid c) (if b then Sent else Failed)
                    (w\<lparr>opened := opened w @ us\<rparr>))
                    \<lparr>queue := map_option (\<lambda>q. q\<lparr>isBulkSending := False, bulkActionType := None\<rparr>)
                                (queue w)\<rparr>"
    by (simp add: resumeBulk_def Let_def)
  with e show ?thesis by (cases b) auto
qed

lemma resumeBulk_next:
  assumes "\<not> throws m c"
  shows "\<exists>out us. (out = Sent \<or> out = Failed)
           \<and> (formatPhone (phone c) = [] \<longrightarrow> us = [] \<and> out = Failed)
           \<and> resumeBulk c (c' # rest') m w
               = (handleUpdateStatus (cid c') Sending
                    (handleUpdateStatus (cid c) out (w\<lparr>opened := opened w @ us\<rparr>)))
                    \<lparr>tasks := tasks w @ [BulkSend c' rest' m]\<rparr>"
proof -
  from openWhatsApp_Inr [OF assms, of w] obtain b us
    where o: "openWhatsApp m c w = Inr (b, w\<lparr>opened := opened w @ us\<rparr>)"
      and e: "formatPhone (phone c) = [] \<longrightarrow> us = [] \<and> \<not> b"
    by blast
  from o have "resumeBulk c (c' # rest') m w
               = (handleUpdateStatus (cid c') Sending
                    (handleUpdateStatus (cid c) (if b then Sent else Failed)
                       (w\<lparr>opened := opened w @ us\<rparr>)))
                    \<lparr>tasks := tasks w @ [BulkSend c' rest' m]\<rparr>"
    by (simp add: resumeBulk_def Let_def)
  with e show ?thesis by (cases b) auto
qed

lemma settle_Nil: "tasks w = [] \<Longrightarrow> settle w = w"
  by (simp add: settle.simps)

lemma settle_Cons: "tasks w = t # ts \<Longrightarrow> settle w = settle (resume t (w\<lparr>tasks := ts\<rparr>))"
  by (subst settle.simps) simp


lemma resume_kept:
  "map cid (candidates (resume t w)) = map cid (candidates w)"
  "map_option selectedIds (queue (resume t w)) = map_option selectedIds (queue w)"
proof -
  have "map cid (candidates (resume t w)) = map cid (candidates w)
        \<and> map_option selectedIds (queue (resume t w)) = map_option selectedIds (queue w)"
  proof (cases t)
    case (SingleSend c m)
    show ?thesis
    proof (cases "throws m c")
      case True
      then show ?thesis by (simp add: SingleSend resumeSingle_throws)
    next
      case False
      from resumeSingle_returns [OF False, of w] show ?thesis
        by (auto simp: SingleSend)
    qed
  next
    case (BulkSend c rest m)
    show ?thesis
    proof (cases "throws m c")
      case True
      then show ?thesis by (simp add: BulkSend resumeBulk_throws)
    next
      case False
      show ?thesis
      proof (cases rest)
        case Nil
        from resumeBulk_last [OF False, of w] show ?thesis
          by (auto simp: BulkSend Nil option.map_comp comp_def)
      next
        case (Cons c' rest')
        from resumeBulk_next [OF False, of c' rest' w] show ?thesis
          by (auto simp: BulkSend Cons)
      qed
    qed
  qed
  then show "map cid (candidates (resume t w)) = map cid (candidates w)"
    and "map_option selectedIds (queue (resume t w)) = map_option selectedIds (queue w)"
    by simp_all
qed

lemma settle_kept:
  "map cid (candidates (settle w)) = map cid (candidates w)
   \<and> map_option selectedIds (queue (settle w)) = map_option selectedIds (queue w)"
proof (induction w rule: settle.induct)
  case (1 w)
  show ?case
  proof (cases "tasks w")
    case Nil
    then show ?thesis by (simp add: settle_Nil)
  next
    case (Cons t ts)
    from 1 [OF Cons] show ?thesis by (simp add: settle_Cons [OF Cons] resume_kept)
  qed
qed

lemma since_same [simp]: "since w w = []"
  by (simp add: since_def)

lemma since_eq: "history w' = history w @ us \<Longrightarrow> since w w' = us"
  by (simp add: since_def)

lemma since_step:
  assumes "history w1 = history w @ us" "history w2 = history w1 @ vs"
  shows "since w w2 = us @ since w1 w2"
  using assms by (simp add: since_def)

lemma attempts_Nil [simp]: "attempts [] outs = []" "attempts cs [] = []"
  by (simp_all add: attempts_def)

lemma attempts_Cons [simp]:
  "attempts (c # cs) (out # outs) = (cid c, Sending) # (cid c, out) # attempts cs outs"
  by (simp add: attempts_def)


lemma bulk_history:
  assumes "tasks w = [BulkSend c rest m]"
  shows "\<exists>us outs vs. history (settle w) = history w @ us \<and> set outs \<subseteq> {Sent, Failed}
           \<and> attempts (c # rest) outs = (cid c, Sending) # us @ vs"
  using assms
proof (induction rest arbitrary: c w)
  case Nil
  define v where "v = w\<lparr>tasks := []\<rparr>"
  have run: "settle w = settle (resumeBulk c [] m v)"
    using settle_Cons [OF Nil] by (simp add: v_def)
  show ?case
  proof (cases "throws m c")
    case True
    then have "settle w = v" by (simp add: run resumeBulk_throws settle_Nil v_def)
    then have "history (settle w) = history w @ []" by (simp add: v_def)
    moreover have "set [Failed] \<subseteq> {Sent, Failed}" by simp
    moreover have "attempts [c] [Failed] = (cid c, Sending) # [] @ [(cid c, Failed)]" by simp
    ultimately show ?thesis by blast
  next
    case False
    from resumeBulk_last [OF False, of v] obtain out us
      where out: "out = Sent \<or> out = Failed"
        and r: "resumeBulk c [] m v
               = (handleUpdateStatus (cid c) out (v\<lparr>opened := opened v @ us\<rparr>))
                    \<lparr>queue := map_option (\<lambda>q. q\<lparr>isBulkSending := False, bulkActionType := None\<rparr>)
                                (queue v)\<rparr>"
      by blast
    from r have "tasks (resumeBulk c [] m v) = []" by (simp add: v_def)
    then have "settle w = resumeBulk c [] m v" by (simp add: run settle_Nil)
    with r have "history (settle w) = history w @ [(cid c, out)]" by (simp add: v_def)
    moreover have "set [out] \<subseteq> {Sent, Failed}" using out by auto
    moreover have "attempts [c] [out] = (cid c, Sending) # [(cid c, out)] @ []" by simp
    ultimately show ?thesis by blast
  qed
next
  case (Cons c' rest')
  define v where "v = w\<lparr>tasks := []\<rparr>"
  have run: "settle w = settle (resumeBulk c (c' # rest') m v)"
    using settle_Cons [OF Cons.prems] by (simp add: v_def)
  show ?case
  proof (cases "throws m c")
    case True
    then have "settle w = v" by (simp add: run resumeBulk_throws settle_Nil v_def)
    then have "history (settle w) = history w @ []" by (simp add: v_def)
    moreover have "set [Failed] \<subseteq> {Sent, Failed}" by simp
    moreover have "attempts (c # c' # rest') [Failed] = (cid c, Sending) # [] @ [(cid c, Failed)]"
      by simp
    ultimately show ?thesis by blast
  next
    case False
    from resumeBulk_next [OF False, of c' rest' v] obtain out us
      where out: "out = Sent \<or> out = Failed"
        and r: "resumeBulk c (c' # rest') m v
               = (handleUpdateStatus (cid c') Sending
                    (handleUpdateStatus (cid c) out (v\<lparr>opened := opened v @ us\<rparr>)))
                    \<lparr>tasks := tasks v @ [BulkSend c' rest' m]\<rparr>"
      by blast
    define x where "x = resumeBulk c (c' # rest') m v"
    from r have t: "tasks x = [BulkSend c' rest' m]" by (simp add: x_def v_def)
    from r have h: "history x = history w @ [(cid c, out), (cid c', Sending)]"
      by (simp add: x_def v_def)
    from Cons.IH [OF t] obtain us' outs' vs'
      where i: "history (settle x) = history x @ us'" "set outs' \<subseteq> {Sent, Failed}"
        "attempts (c' # rest') outs' = (cid c', Sending) # us' @ vs'"
      by blast
    have "history (settle w) = history w @ ((cid c, out) # (cid c', Sending) # us')"
      using i(1) h by (simp add: run x_def)
    moreover have "set (out # outs') \<subseteq> {Sent, Failed}" using out i(2) by auto
    moreover have "attempts (c # c' # rest') (out # outs')
                     = (cid c, Sending) # ((cid c, out) # (cid c', Sending) # us') @ vs'"
      using i(3) by simp
    ultimately show ?thesis by blast
  qed
qed

lemma bulk_complete:
  assumes "tasks w = [BulkSend c rest m]" "\<forall>x\<in>set (c # rest). \<not> throws m x"
  shows "\<exists>outs. length outs = Suc (length rest) \<and> set outs \<subseteq> {Sent, Failed}
           \<and> (cid c, Sending) # since w (settle w) = attempts (c # rest) outs
           \<and> queue (settle w)
               = map_option (\<lambda>q. q\<lparr>isBulkSending := False, bulkActionType := None\<rparr>) (queue w)
           \<and> ((\<forall>x\<in>set (c # rest). formatPhone (phone x) = []) \<longrightarrow>
                opened (settle w) = opened w \<and> set outs \<subseteq> {Failed})"
  using assms
proof (induction rest arbitrary: c w)
  case Nil
  define v where "v = w\<lparr>tasks := []\<rparr>"
  have run: "settle w = settle (resumeBulk c [] m v)"
    using settle_Cons [OF Nil(1)] by (simp add: v_def)
  from Nil(2) have nt: "\<not> throws m c" by simp
  from resumeBulk_last [OF nt, of v] obtain out us
    where out: "out = Sent \<or> out = Failed"
      and e: "formatPhone (phone c) = [] \<longrightarrow> us = [] \<and> out = Failed"
      and r: "resumeBulk c [] m v
               = (handleUpdateStatus (cid c) out (v\<lparr>opened := opened v @ us\<rparr>))
                    \<lparr>queue := map_option (\<lambda>q. q\<lparr>isBulkSending := False, bulkActionType := None\<rparr>)
                                (queue v)\<rparr>"
    by blast
  from r have "tasks (resumeBulk c [] m v) = []" by (simp add: v_def)
  then have s: "settle w = resumeBulk c [] m v" by (simp add: run settle_Nil)
  have "length [out] = Suc (length ([] :: candidate list))" by simp
  moreover have "set [out] \<subseteq> {Sent, Failed}" using out by auto
  moreover have "(cid c, Sending) # since w (settle w) = attempts [c] [out]"
    using r by (simp add: s since_def v_def)
  moreover have "queue (settle w)
               = map_option (\<lambda>q. q\<lparr>isBulkSending := False, bulkActionType := None\<rparr>) (queue w)"
    using r by (simp add: s v_def)
  moreover have "(\<forall>x\<in>set [c]. formatPhone (phone x) = []) \<longrightarrow>
                opened (settle w) = opened w \<and> set [out] \<subseteq> {Failed}"
    using e r by (simp add: s v_def)
  ultimately show ?case by blast
next
  case (Cons c' rest')
  define v where "v = w\<lparr>tasks := []\<rparr>"
  have run: "settle w = settle (resumeBulk c (c' # rest') m v)"
    using settle_Cons [OF Cons.prems(1)] by (simp add: v_def)
  from Cons.prems(2) have nt: "\<not> throws m c"
    and nt': "\<forall>x\<in>set (c' # rest'). \<not> throws m x" by simp_all
  from resumeBulk_next [OF nt, of c' rest' v] obtain out us
    where out: "out = Sent \<or> out = Failed"
      and e: "formatPhone (phone c) = [] \<longrightarrow> us = [] \<and> out = Failed"
      and r: "resumeBulk c (c' # rest') m v
               = (handleUpdateStatus (cid c') Sending
                    (handleUpdateStatus (cid c) out (v\<lparr>opened := opened v @ us\<rparr>)))
                    \<lparr>tasks := tasks v @ [BulkSend c' rest' m]\<rparr>"
    by blast
  define x where "x = resumeBulk c (c' # rest') m v"
  from r have t: "tasks x = [BulkSend c' rest' m]" by (simp add: x_def v_def)
  from r have h: "history x = history w @ [(cid c, out), (cid c', Sending)]"
    by (simp add: x_def v_def)
  from r have q: "queue x = queue w" by (simp add: x_def v_def)
  from r have o: "opened x = opened w @ us" by (simp add: x_def v_def)
  from Cons.IH [OF t nt'] obtain outs'
    where i: "length outs' = Suc (length rest')" "set outs' \<subseteq> {Sent, Failed}"
      "(cid c', Sending) # since x (settle x) = attempts (c' # rest') outs'"
      "queue (settle x)
         = map_option (\<lambda>q. q\<lparr>isBulkSending := False, bulkActionType := None\<rparr>) (queue x)"
      "(\<forall>y\<in>set (c' # rest'). formatPhone (phone y) = []) \<longrightarrow>
         opened (settle x) = opened x \<and> set outs' \<subseteq> {Failed}"
    by blast
  from bulk_history [OF t] obtain us' where u: "history (settle x) = history x @ us'" by blast
  have sx: "settle w = settle x" by (simp add: run x_def)
  have "since w (settle w) = [(cid c, out), (cid c', Sending)] @ since x (settle x)"
    unfolding sx by (rule since_step [OF h u])
  then have a: "(cid c, Sending) # since w (settle w) = attempts (c # c' # rest') (out # outs')"
    using i(3) by simp
  have "length (out # outs') = Suc (length (c' # rest'))" using i(1) by simp
  moreover have "set (out # outs') \<subseteq> {Sent, Failed}" using out i(2) by auto
  moreover note a
  moreover have "queue (settle w)
               = map_option (\<lambda>q. q\<lparr>isBulkSending := False, bulkActionType := None\<rparr>) (queue w)"
    using i(4) q by (simp add: sx)
  moreover have "(\<forall>y\<in>set (c # c' # rest'). formatPhone (phone y) = []) \<longrightarrow>
                opened (settle w) = opened w \<and> set (out # outs') \<subseteq> {Failed}"
    using i(5) e o by (auto simp: sx)
  ultimately show ?case by blast
qed






lemma transitions_targets:
  "(a, b) \<in> set (transitions r us) \<Longrightarrow> b \<in> snd ` set us"
  by (induction us arbitrary: r) auto




lemma retryEach_history:
  "\<exists>us. history (retryEach sel cs w) = history w @ us \<and> snd ` set us \<subseteq> {Pending}"
proof (induction cs arbitrary: w)
  case Nil
  then show ?case by simp
next
  case (Cons c cs)
  show ?case
  proof (cases "cid c \<in> sel")
    case True
    from Cons.IH [of "handleUpdateStatus (cid c) Pending w"] obtain us
      where "history (retryEach sel cs (handleUpdateStatus (cid c) Pending w))
               = history w @ (cid c, Pending) # us" "snd ` set us \<subseteq> {Pending}"
      by auto
    then have "history (retryEach sel (c # cs) w) = history w @ ((cid c, Pending) # us)
                 \<and> snd ` set ((cid c, Pending) # us) \<subseteq> {Pending}"
      using True by simp
    then show ?thesis by blast
  next
    case False
    from Cons.IH [of w] False show ?thesis by auto
  qed
qed


lemma retryEach_transitions:
  assumes "(a, b) \<in> set (transitions (candidates w) (since w (retryEach sel cs w)))"
  shows "b = Pending"
proof -
  from retryEach_history [of sel cs w] obtain us where us:
    "history (retryEach sel cs w) = history w @ us" "snd ` set us \<subseteq> {Pending}" by blast
  from us(1) have "since w (retryEach sel cs w) = us" by (rule since_eq)
  with assms have "(a, b) \<in> set (transitions (candidates w) us)" by simp
  from transitions_targets [OF this] us(2) show ?thesis by blast
qed



















lemma afterUpload_browser:
  "popups afterUpload = allowed" "opened afterUpload = []" "history afterUpload = []"
  "tasks afterUpload = []" "queue afterUpload = None"
  by (simp_all add: afterUpload_def handleDataLoaded_def Let_def setStep_def startup_def)

lemma queueOver_fields:
  "candidates (queueOver r) = r" "template (queueOver r) = helloTemplate"
  "queue (queueOver r) = Some initialQueue" "tasks (queueOver r) = []"
  "history (queueOver r) = []" "opened (queueOver r) = []" "popups (queueOver r) = allowed"
  by (simp_all add: queueOver_def afterUpload_browser) (simp add: setStep_def afterUpload_browser)




lemma toggle:
  assumes "queue w = Some q" "c \<in> set (candidates w)"
  shows "queueEvent (ToggleSelection c) w = w\<lparr>queue := Some (toggleSelection (cid c) q)\<rparr>"
  using assms by (simp add: queueEvent_def)


lemma clickSendAll:
  assumes "queue w = Some q" "\<not> isBulkSending q" "pendingCount w \<noteq> 0"
  shows "queueEvent ClickSendAll w
           = w\<lparr>queue := Some (q\<lparr>bulkActionType := Some All, showBulkConfirm := True\<rparr>)\<rparr>"
  using assms by (simp add: queueEvent_def handleBulkSendClick_def)

lemma confirmBulk_all:
  assumes "queue w = Some q" "candidateToConfirm q = None" "showBulkConfirm q"
    "bulkActionType q = Some All" "filter (\<lambda>c. status c = Pending) (candidates w) = c # rest"
  shows "queueEvent ConfirmBulk w
           = (handleUpdateStatus (cid c) Sending w)
               \<lparr>tasks := tasks w @ [BulkSend c rest (fullMessage (template w))],
                queue := Some (q\<lparr>showBulkConfirm := False, isBulkSending := True\<rparr>)\<rparr>"
  using assms by (simp add: queueEvent_def confirmBulkSend_def processCandidateList_def Let_def)




lemma hello_ann:
  "personalizedMessage (fullMessage helloTemplate) annCandidate
     = js ''Hi Ann'' @ [0x0A, 0x0A] @ js ''Q1?'' @ [0x0A, 0x0A] @ js ''Bye''"
  by (simp add: hello_message hello_blocks personalizedMessage_def namePart_def orElse_def
      annCandidate_def nameToken_def js_def)

lemma hello_half:
  "personalizedMessage (fullMessage helloTemplate) halfPair
     = js ''Hi '' @ [0xD83D] @ js ''Ann'' @ [0x0A, 0x0A] @ js ''Q1?'' @ [0x0A, 0x0A] @ js ''Bye''"
  by (simp add: hello_message hello_blocks personalizedMessage_def namePart_def orElse_def
      halfPair_def nameToken_def js_def)


lemma no_throw_ann: "\<not> throws (fullMessage helloTemplate) annCandidate"
  by (simp add: throws_def hello_ann) (simp add: js_def unreserved_def percent_def utf8_def hexDigit_def)

lemma throw_half: "throws (fullMessage helloTemplate) halfPair"
  by (simp add: throws_def hello_half)
    (simp add: js_def unreserved_def percent_def utf8_def hexDigit_def halfPair_def
      formatPhone_def isDigit_def)

lemma bulk_send_all_without_exception:
  assumes quiet: "tasks w = []"
    and q: "queue w = Some q" "candidateToConfirm q = None" "showBulkConfirm q"
      "bulkActionType q = Some All"
    and safe: "\<forall>x\<in>set (candidates w). status x = Pending \<longrightarrow> \<not> throws (fullMessage (template w)) x"
  shows "\<exists>outs. length outs = pendingCount w \<and> set outs \<subseteq> {Sent, Failed}
           \<and> since w (settle (queueEvent ConfirmBulk w))
               = attempts (filter (\<lambda>c. status c = Pending) (candidates w)) outs
           \<and> map_option isBulkSending (queue (settle (queueEvent ConfirmBulk w))) = Some False"
proof (cases "filter (\<lambda>c. status c = Pending) (candidates w)")
  case Nil
  with q have e: "queueEvent ConfirmBulk w
      = w\<lparr>queue := Some (q\<lparr>showBulkConfirm := False, isBulkSending := False,
                             bulkActionType := None\<rparr>)\<rparr>"
    by (simp add: queueEvent_def confirmBulkSend_def processCandidateList_def Let_def)
  then have "tasks (queueEvent ConfirmBulk w) = []" using quiet by simp
  then have s: "settle (queueEvent ConfirmBulk w) = queueEvent ConfirmBulk w" by (rule settle_Nil)
  have "length ([] :: status list) = pendingCount w" using Nil by (simp add: pendingCount_def)
  moreover have "since w (settle (queueEvent ConfirmBulk w))
               = attempts (filter (\<lambda>c. status c = Pending) (candidates w)) []"
    unfolding s by (simp add: e since_def)
  moreover have "map_option isBulkSending (queue (settle (queueEvent ConfirmBulk w))) = Some False"
    unfolding s by (simp add: e)
  ultimately show ?thesis by fastforce
next
  case (Cons c rest)
  define x where "x = queueEvent ConfirmBulk w"
  from confirmBulk_all [OF q Cons]
  have e: "x = (handleUpdateStatus (cid c) Sending w)
               \<lparr>tasks := tasks w @ [BulkSend c rest (fullMessage (template w))],
                queue := Some (q\<lparr>showBulkConfirm := False, isBulkSending := True\<rparr>)\<rparr>"
    by (simp add: x_def)
  have t: "tasks x = [BulkSend c rest (fullMessage (template w))]"
    and h: "history x = history w @ [(cid c, Sending)]"
    and qx: "queue x = Some (q\<lparr>showBulkConfirm := False, isBulkSending := True\<rparr>)"
    using quiet by (simp_all add: e)
  have "set (c # rest) \<subseteq> {y \<in> set (candidates w). status y = Pending}"
    using Cons [symmetric] by auto
  with safe have n: "\<forall>y\<in>set (c # rest). \<not> throws (fullMessage (template w)) y" by blast
  from bulk_complete [OF t n] obtain outs
    where outs: "length outs = Suc (length rest)" "set outs \<subseteq> {Sent, Failed}"
      "(cid c, Sending) # since x (settle x) = attempts (c # rest) outs"
      "queue (settle x)
         = map_option (\<lambda>q. q\<lparr>isBulkSending := False, bulkActionType := None\<rparr>) (queue x)"
    by blast
  from bulk_history [OF t] obtain us where us: "history (settle x) = history x @ us" by blast
  have "since w (settle x) = [(cid c, Sending)] @ since x (settle x)"
    by (rule since_step [OF h us])
  with outs(3) have a: "since w (settle x) = attempts (c # rest) outs" by simp
  have "length outs = pendingCount w" using outs(1) Cons by (simp add: pendingCount_def)
  moreover note outs(2)
  moreover have "since w (settle (queueEvent ConfirmBulk w))
               = attempts (filter (\<lambda>c. status c = Pending) (candidates w)) outs"
    using a by (simp add: x_def Cons)
  moreover have "map_option isBulkSending (queue (settle (queueEvent ConfirmBulk w))) = Some False"
    using outs(4) qx by (simp add: x_def)
  ultimately show ?thesis by blast
qed

lemma broken_clicked:
  "queueEvent ClickSendAll (queueOver [halfPair, pendingBob])
     = (queueOver [halfPair, pendingBob])
         \<lparr>queue := Some (initialQueue\<lparr>bulkActionType := Some All, showBulkConfirm := True\<rparr>)\<rparr>"
  by (rule clickSendAll)
    (simp_all add: queueOver_fields initialQueue_def pendingCount_def halfPair_def)

lemma broken_confirmed:
  "queueEvent ConfirmBulk ((queueOver [halfPair, pendingBob])
         \<lparr>queue := Some (initialQueue\<lparr>bulkActionType := Some All, showBulkConfirm := True\<rparr>)\<rparr>)
     = (handleUpdateStatus (js ''c-7-0'') Sending (queueOver [halfPair, pendingBob]))
         \<lparr>tasks := [BulkSend halfPair [pendingBob] (fullMessage helloTemplate)],
          queue := Some (initialQueue\<lparr>bulkActionType := Some All, showBulkConfirm := False,
                                       isBulkSending := True\<rparr>)\<rparr>"
proof -
  let ?w = "(queueOver [halfPair, pendingBob])
         \<lparr>queue := Some (initialQueue\<lparr>bulkActionType := Some All, showBulkConfirm := True\<rparr>)\<rparr>"
  have "queueEvent ConfirmBulk ?w
     = (handleUpdateStatus (cid halfPair) Sending ?w)
         \<lparr>tasks := tasks ?w @ [BulkSend halfPair [pendingBob] (fullMessage (template ?w))],
          queue := Some ((initialQueue\<lparr>bulkActionType := Some All, showBulkConfirm := True\<rparr>)
                           \<lparr>showBulkConfirm := False, isBulkSending := True\<rparr>)\<rparr>"
    by (rule confirmBulk_all)
      (simp_all add: initialQueue_def queueOver_fields, simp add: halfPair_def pendingBob_def sentBob_def)
  then show ?thesis
    by (simp add: queueOver_fields handleUpdateStatus_def) (simp add: halfPair_def)
qed




















lemma ticked_then_all:
  "queueEvent ClickSendAll (queueEvent (ToggleSelection annCandidate) (queueOver [annCandidate]))
     = (queueOver [annCandidate])\<lparr>queue := Some selectedThenAll\<rparr>"
proof -
  have a: "queueEvent (ToggleSelection annCandidate) (queueOver [annCandidate])
             = (queueOver [annCandidate])\<lparr>queue := Some (toggleSelection (cid annCandidate) initialQueue)\<rparr>"
    by (rule toggle) (simp_all add: queueOver_fields)
  have t: "toggleSelection (cid annCandidate) initialQueue
             = initialQueue\<lparr>selectedIds := {js ''c-7-0''}\<rparr>"
    by (simp add: toggleSelection_def initialQueue_def annCandidate_def)
  have p: "pendingCount ((queueOver [annCandidate])\<lparr>queue := Some (initialQueue\<lparr>selectedIds := {js ''c-7-0''}\<rparr>)\<rparr>) \<noteq> 0"
    by (simp add: pendingCount_def queueOver_fields annCandidate_def)
  have "queueEvent ClickSendAll ((queueOver [annCandidate])\<lparr>queue := Some (initialQueue\<lparr>selectedIds := {js ''c-7-0''}\<rparr>)\<rparr>)
          = ((queueOver [annCandidate])\<lparr>queue := Some (initialQueue\<lparr>selectedIds := {js ''c-7-0''}\<rparr>)\<rparr>)
              \<lparr>queue := Some ((initialQueue\<lparr>selectedIds := {js ''c-7-0''}\<rparr>)
                                 \<lparr>bulkActionType := Some All, showBulkConfirm := True\<rparr>)\<rparr>"
    by (rule clickSendAll [OF _ _ p]) (simp_all add: initialQueue_def)
  then show ?thesis by (simp add: a t selectedThenAll_def)
qed

lemma ticked_then_all_confirmed:
  "queueEvent ConfirmBulk ((queueOver [annCandidate])\<lparr>queue := Some selectedThenAll\<rparr>)
     = (handleUpdateStatus (js ''c-7-0'') Sending (queueOver [annCandidate]))
         \<lparr>tasks := [BulkSend annCandidate [] (fullMessage helloTemplate)],
          queue := Some (selectedThenAll\<lparr>showBulkConfirm := False, isBulkSending := True\<rparr>)\<rparr>"
proof -
  have "queueEvent ConfirmBulk ((queueOver [annCandidate])\<lparr>queue := Some selectedThenAll\<rparr>)
     = (handleUpdateStatus (cid annCandidate) Sending ((queueOver [annCandidate])\<lparr>queue := Some selectedThenAll\<rparr>))
         \<lparr>tasks := tasks ((queueOver [annCandidate])\<lparr>queue := Some selectedThenAll\<rparr>)
                     @ [BulkSend annCandidate [] (fullMessage (template ((queueOver [annCandidate])\<lparr>queue := Some selectedThenAll\<rparr>)))],
          queue := Some (selectedThenAll\<lparr>showBulkConfirm := False, isBulkSending := True\<rparr>)\<rparr>"
    by (rule confirmBulk_all)
      (simp_all add: selectedThenAll_def initialQueue_def queueOver_fields, simp add: annCandidate_def)
  then show ?thesis
    by (simp add: queueOver_fields handleUpdateStatus_def) (simp add: annCandidate_def)
qed

section \<open>Claims\<close>

text \<open>
  C1. The bulk send over all pending candidates does not always run to its end. The loop
  of \<open>processCandidateList\<close> has no \<open>try\<close>, and \<open>encodeURIComponent\<close> throws on a message
  with a surrogate that has no partner. For a roster of two pending candidates, the first
  with a name that starts with half a surrogate pair, the loop marks the first \<open>sending\<close>
  and ends at the exception: nothing is opened, the first stays \<open>sending\<close>, the second
  stays \<open>pending\<close> and is never processed, and \<open>isBulkSending\<close> stays set, so that Send to
  All and Start Over stay disabled.
\<close>

theorem bulk_send_stops_at_exception:
  "pendingCount (queueOver [halfPair, pendingBob]) = 2
   \<and> since (queueOver [halfPair, pendingBob])
        (settle (queueEvent ConfirmBulk (queueEvent ClickSendAll (queueOver [halfPair, pendingBob]))))
       = [(js ''c-7-0'', Sending)]
   \<and> map status (candidates
        (settle (queueEvent ConfirmBulk (queueEvent ClickSendAll (queueOver [halfPair, pendingBob])))))
       = [Sending, Pending]
   \<and> opened (settle (queueEvent ConfirmBulk (queueEvent ClickSendAll (queueOver [halfPair, pendingBob]))))
       = []
   \<and> tasks (settle (queueEvent ConfirmBulk (queueEvent ClickSendAll (queueOver [halfPair, pendingBob]))))
       = []
   \<and> map_option isBulkSending (queue
        (settle (queueEvent ConfirmBulk (queueEvent ClickSendAll (queueOver [halfPair, pendingBob])))))
       = Some True
   \<and> queueEvent ClickSendAll
        (settle (queueEvent ConfirmBulk (queueEvent ClickSendAll (queueOver [halfPair, pendingBob]))))
       = settle (queueEvent ConfirmBulk (queueEvent ClickSendAll (queueOver [halfPair, pendingBob])))
   \<and> onReset
        (settle (queueEvent ConfirmBulk (queueEvent ClickSendAll (queueOver [halfPair, pendingBob]))))
       = settle (queueEvent ConfirmBulk (queueEvent ClickSendAll (queueOver [halfPair, pendingBob])))"
proof -
  define x where "x = queueEvent ConfirmBulk (queueEvent ClickSendAll (queueOver [halfPair, pendingBob]))"
  define v where "v = x\<lparr>tasks := []\<rparr>"
  have e: "x = (handleUpdateStatus (js ''c-7-0'') Sending (queueOver [halfPair, pendingBob]))
         \<lparr>tasks := [BulkSend halfPair [pendingBob] (fullMessage helloTemplate)],
          queue := Some (initialQueue\<lparr>bulkActionType := Some All, showBulkConfirm := False,
                                       isBulkSending := True\<rparr>)\<rparr>"
    by (simp add: x_def broken_clicked broken_confirmed)
  have t: "tasks x = [BulkSend halfPair [pendingBob] (fullMessage helloTemplate)]"
    by (simp add: e)
  have "settle x = settle (resumeBulk halfPair [pendingBob] (fullMessage helloTemplate) v)"
    using settle_Cons [OF t] by (simp add: v_def)
  then have s: "settle x = v"
    by (simp add: resumeBulk_throws [OF throw_half] settle_Nil v_def)
  have ne: "js ''c-7-1'' \<noteq> js ''c-7-0''" by (simp add: js_def)
  have p: "pendingCount (queueOver [halfPair, pendingBob]) = 2"
    by (simp add: pendingCount_def queueOver_fields halfPair_def pendingBob_def sentBob_def)
  have h: "since (queueOver [halfPair, pendingBob]) v = [(js ''c-7-0'', Sending)]"
    by (simp add: v_def e since_def queueOver_fields)
  have c: "map status (candidates v) = [Sending, Pending]"
    by (simp add: v_def e queueOver_fields halfPair_def pendingBob_def sentBob_def ne)
  have o: "opened v = []" "tasks v = []" by (simp_all add: v_def e queueOver_fields)
  have q: "queue v = Some (initialQueue\<lparr>bulkActionType := Some All, showBulkConfirm := False,
                                       isBulkSending := True\<rparr>)"
    by (simp add: v_def e)
  then have b: "map_option isBulkSending (queue v) = Some True" by simp
  have a: "queueEvent ClickSendAll v = v" using q by (simp add: queueEvent_def)
  have r: "onReset v = v" using q by (simp add: onReset_def)
  from p h c o b a r show ?thesis unfolding x_def [symmetric] s by blast
qed




text \<open>
  C3, as the claim states it. A row whose phone has fewer than six characters once the
  characters that are not digits are stripped is still in the roster when the phone as read
  from the file has six characters or more.
\<close>

theorem unnormalised_phone_kept:
  "length (formatPhone (js ''(12) 3-4'')) < 6
   \<and> map phone (rosterOf (handleDataLoaded unavailable noon [deeRow] (startup blankStore allowed)))
       = [js ''(12) 3-4'']"
proof -
  have "length (formatPhone (js ''(12) 3-4'')) < 6"
    by (simp add: formatPhone_def isDigit_def js_def)
  moreover have "map phone (rosterOf (handleDataLoaded unavailable noon [deeRow]
                    (startup blankStore allowed))) = [js ''(12) 3-4'']"
    by (simp add: handleDataLoaded_roster mappedCandidates_def deeRow_def analyzeCsvHeaders_def
        unavailable_def rawPhone_Phone) (simp add: js_def)
  ultimately show ?thesis by blast
qed

text \<open>
  C3, amended. The roster holds exactly the rows whose mapped phone value, as read from the
  file with no normalization and empty when absent, has six characters or more, in the order
  of the file; every other row is excluded. For the rows \<open>{Name: Bob, Phone: 12}\<close> and one
  valid row the roster has length 1.
\<close>

theorem roster_keeps_raw_phones_of_six:
  "map originalRow (rosterOf (handleDataLoaded ai now (r0 # rest) w))
     = filter (\<lambda>r. 5 < length (rawPhone (analyzeCsvHeaders ai (map fst r0) r0) r)) (r0 # rest)
   \<and> map phone (rosterOf (handleDataLoaded ai now (r0 # rest) w))
     = filter (\<lambda>p. 5 < length p) (map (rawPhone (analyzeCsvHeaders ai (map fst r0) r0)) (r0 # rest))
   \<and> length (rosterOf (handleDataLoaded unavailable now [bobRow, annRow] w)) = 1"
proof (intro conjI)
  show "map originalRow (rosterOf (handleDataLoaded ai now (r0 # rest) w))
     = filter (\<lambda>r. 5 < length (rawPhone (analyzeCsvHeaders ai (map fst r0) r0) r)) (r0 # rest)"
    unfolding handleDataLoaded_roster mappedCandidates_def by (rule mappedCandidates_rows)
  show "map phone (rosterOf (handleDataLoaded ai now (r0 # rest) w))
     = filter (\<lambda>p. 5 < length p) (map (rawPhone (analyzeCsvHeaders ai (map fst r0) r0)) (r0 # rest))"
    unfolding handleDataLoaded_roster mappedCandidates_def by (rule mappedCandidates_phones)
  show "length (rosterOf (handleDataLoaded unavailable now [bobRow, annRow] w)) = 1"
    by (rule bob_ann_roster)
qed

text \<open>
  C4, as the claim states it. A roster restored from the persistence layer can contain a
  candidate in status \<open>sending\<close>: the status is written to the store when an attempt starts,
  and \<open>getAllCandidates\<close> returns the stored status as it is.
\<close>

theorem restored_roster_contains_sending:
  "map status (candidates (loadCandidates (startup interruptedStore allowed))) = [Sending]"
  using loadCandidates_statuses [OF interruptedStore_table(2) interruptedStore_table(1), of allowed]
  by (simp add: storedStatus_def)

text \<open>
  C4, amended. Every candidate of a roster constructed from an upload has status \<open>pending\<close>.
  A roster restored from the persistence layer at startup carries, row by row, the stored
  status, \<open>pending\<close> where none is stored.
\<close>

theorem fresh_roster_pending_restored_as_stored:
  "(\<forall>c\<in>set (rosterOf (handleDataLoaded ai now rawData w)). status c = Pending)
   \<and> (fault b = None \<and> table b = Some rows \<longrightarrow>
        map status (candidates (loadCandidates (startup b p))) = map storedStatus rows)"
proof (intro conjI impI)
  show "\<forall>c\<in>set (rosterOf (handleDataLoaded ai now rawData w)). status c = Pending"
  proof (cases rawData)
    case Nil
    then show ?thesis by (simp add: handleDataLoaded_def rosterOf_def)
  next
    case (Cons r0 rest)
    then show ?thesis
      using mappedCandidates_pending by (simp add: handleDataLoaded_roster)
  qed
next
  assume "fault b = None \<and> table b = Some rows"
  then show "map status (candidates (loadCandidates (startup b p))) = map storedStatus rows"
    using loadCandidates_statuses by blast
qed

theorem fresh_roster_pending_restored_as_stored_witness:
  "map status (rosterOf (handleDataLoaded unavailable noon [bobRow, annRow] (startup blankStore allowed)))
     = [Pending]
   \<and> fault interruptedStore = None
   \<and> table interruptedStore = Some [(toRow annCandidate)\<lparr>row_status := Some Sending\<rparr>]
   \<and> map status (candidates (loadCandidates (startup interruptedStore allowed)))
       = map storedStatus [(toRow annCandidate)\<lparr>row_status := Some Sending\<rparr>]"
proof -
  note t = fresh_roster_pending_restored_as_stored
    [of unavailable noon "[bobRow, annRow]" "startup blankStore allowed" interruptedStore
        "[(toRow annCandidate)\<lparr>row_status := Some Sending\<rparr>]" allowed]
  have l: "length (rosterOf (handleDataLoaded unavailable noon [bobRow, annRow] (startup blankStore allowed))) = 1"
    by (rule bob_ann_roster)
  from t have "\<forall>c\<in>set (rosterOf (handleDataLoaded unavailable noon [bobRow, annRow] (startup blankStore allowed))). status c = Pending"
    by (rule conjunct1)
  with l have a: "map status (rosterOf (handleDataLoaded unavailable noon [bobRow, annRow] (startup blankStore allowed))) = [Pending]"
    by (cases "rosterOf (handleDataLoaded unavailable noon [bobRow, annRow] (startup blankStore allowed))") auto
  have b: "map status (candidates (loadCandidates (startup interruptedStore allowed)))
       = map storedStatus [(toRow annCandidate)\<lparr>row_status := Some Sending\<rparr>]"
    using t [THEN conjunct2] interruptedStore_table by blast
  from a b interruptedStore_table show ?thesis by blast
qed



text \<open>
  C6. The composed message is the intro, the questions joined by newline and the outro, an
  empty line between the blocks, trimmed; for the template \<open>Hi {{name}}\<close>, \<open>Q1?\<close>, \<open>Bye\<close>
  and the name \<open>Jane Doe\<close> the personalized message is \<open>Hi Jane\<close>, \<open>Q1?\<close>, \<open>Bye\<close>. But
  the token is not always replaced by the name up to its first space: \<open>String.replace\<close>
  reads a dollar sign in the inserted name as a replacement pattern, so for the name
  \<open>A$$AP Rocky\<close> the message \<open>Hi {{name}}\<close> becomes \<open>Hi A$AP\<close>, not \<open>Hi A$$AP\<close>, and
  that text is what the link carries.
\<close>

theorem dollar_in_name_is_rewritten:
  "fullMessage t = trim (blocks t)
   \<and> personalizedMessage (fullMessage helloTemplate) janeDoe
       = js ''Hi Jane'' @ [0x0A, 0x0A] @ js ''Q1?'' @ [0x0A, 0x0A] @ js ''Bye''
   \<and> name dollarName = js ''A$$AP Rocky''
   \<and> firstToken (name dollarName) = js ''A$$AP''
   \<and> substitute (firstToken (name dollarName)) (js ''Hi {{name}}'') = js ''Hi A$$AP''
   \<and> personalizedMessage (js ''Hi {{name}}'') dollarName = js ''Hi A$AP''
   \<and> opened (snd (projr (openWhatsApp (js ''Hi {{name}}'') dollarName (queueOver [dollarName]))))
       = [js ''https://api.whatsapp.com/send?phone=15550123456&text=Hi%20A%24AP'']"
proof -
  have a: "name dollarName = js ''A$$AP Rocky''" by (simp add: dollarName_def)
  have b: "firstToken (name dollarName) = js ''A$$AP''"
    by (simp add: a firstToken_def js_def)
  have p: "formatPhone (phone dollarName) = js ''15550123456''"
    by (simp add: dollarName_def janeDoe_def formatPhone_def isDigit_def js_def)
  have e: "encodeURIComponent (js ''Hi A$AP'') = Some (js ''Hi%20A%24AP'')"
    by (simp add: js_def unreserved_def percent_def utf8_def hexDigit_def)
  have o: "opened (snd (projr (openWhatsApp (js ''Hi {{name}}'') dollarName (queueOver [dollarName]))))
       = [js ''https://api.whatsapp.com/send?phone=15550123456&text=Hi%20A%24AP'']"
    by (simp add: openWhatsApp_def p dollar_name(1) e queueOver_fields Let_def) (simp add: js_def)
  from fullMessage_blocks hello_jane a b dollar_name o show ?thesis by blast
qed




text \<open>
  C8. When the tone-rewrite collaborator fails, \<open>refineMessageTone\<close> returns the current
  text unchanged and raises nothing. \<open>handleRefine\<close> stores what it returns with every
  double quote removed, on this path as on the successful one, so an intro that contains a
  double quote does not stay as the user wrote it.
\<close>

theorem tone_failure_strips_quotes:
  "refineMessageTone toneUnavailable (intro quotedTemplate) Friendly = intro quotedTemplate
   \<and> intro (handleRefine toneUnavailable Friendly quotedTemplate) = js ''Say hi to {{name}}''
   \<and> handleRefine toneUnavailable Friendly quotedTemplate \<noteq> quotedTemplate"
proof -
  have f: "toneUnavailable (intro quotedTemplate) Friendly = Inl RequestFailed"
    by (simp add: toneUnavailable_def)
  have a: "refineMessageTone toneUnavailable (intro quotedTemplate) Friendly = intro quotedTemplate"
    using f by (simp add: refineMessageTone_def)
  have b: "intro (handleRefine toneUnavailable Friendly quotedTemplate) = js ''Say hi to {{name}}''"
    using f by (simp add: handleRefine_def refineMessageTone_def) (simp add: quotedTemplate_def js_def)
  have "intro quotedTemplate \<noteq> js ''Say hi to {{name}}''"
    by (simp add: quotedTemplate_def js_def)
  with b have c: "handleRefine toneUnavailable Friendly quotedTemplate \<noteq> quotedTemplate"
    by auto
  from a b c show ?thesis by blast
qed

text \<open>
  C9, as the claim states it. In offline mode \<open>getAllCandidates\<close> still queries the store:
  over a store whose table exists it returns the stored rows and no offline indicator.
\<close>

theorem offline_list_reads_store:
  "isOfflineMode (offlineOver interruptedStore)
   \<and> fst (getAllCandidates (offlineOver interruptedStore))
       = \<lparr>data = [annCandidate\<lparr>status := Sending\<rparr>], error = None\<rparr>"
proof -
  have "fst (getAllCandidates (offlineOver interruptedStore))
          = \<lparr>data = map mapRow [(toRow annCandidate)\<lparr>row_status := Some Sending\<rparr>], error = None\<rparr>"
    by (rule getAllCandidates_rows) (simp_all add: offlineOver_def interruptedStore_table)
  then show ?thesis by (simp add: mapRow_interrupted offlineOver_def)
qed

text \<open>
  C9, amended. An operation that is answered with the schema-absent error leaves the
  adapter in offline mode, and \<open>getAllCandidates\<close> then returns an empty list with the
  indicator \<open>missing_table\<close> rather than throwing. In offline mode \<open>addCandidates\<close>,
  \<open>updateStatus\<close> and \<open>clearCandidates\<close> change nothing: no request reaches the store.
  \<open>getAllCandidates\<close> is not short-circuited: in offline mode as in online mode it sends
  its query to the store, and when the store answers with rows it returns them, with no
  indicator. It never ends offline mode. Only \<open>retryConnection\<close> does: after it the adapter
  is offline exactly when its probe was answered with the schema-absent error, and it is
  online whenever it returns true.
\<close>

theorem offline_mode_contract:
  "(schemaAbsent (remote d) \<longrightarrow>
      isOfflineMode (snd (getAllCandidates d))
      \<and> fst (getAllCandidates d) = \<lparr>data = [], error = Some (js ''missing_table'')\<rparr>
      \<and> isOfflineMode (updateStatus i s d)
      \<and> isOfflineMode (clearCandidates d)
      \<and> (cs \<noteq> [] \<longrightarrow> isOfflineMode (addCandidates cs d)))
   \<and> (isOfflineMode f \<longrightarrow>
      addCandidates cs f = f \<and> updateStatus i s f = f \<and> clearCandidates f = f
      \<and> isOfflineMode (snd (getAllCandidates f))
      \<and> (fault (remote f) = None \<and> table (remote f) = Some rows \<longrightarrow>
            fst (getAllCandidates f) = \<lparr>data = map mapRow rows, error = None\<rparr>))
   \<and> remote (snd (getAllCandidates g)) = (remote g)\<lparr>requests := requests (remote g) @ [Select]\<rparr>
   \<and> isOfflineMode (snd (retryConnection r)) = schemaAbsent (remote r)
   \<and> (fst (retryConnection r) \<longrightarrow> \<not> isOfflineMode (snd (retryConnection r)))"
proof (intro conjI impI)
  assume a: "schemaAbsent (remote d)"
  show "isOfflineMode (snd (getAllCandidates d))" by (rule getAllCandidates_absent(2) [OF a])
  show "fst (getAllCandidates d) = \<lparr>data = [], error = Some (js ''missing_table'')\<rparr>"
    by (rule getAllCandidates_absent(1) [OF a])
  show "isOfflineMode (updateStatus i s d)" by (rule writes_absent(2) [OF a])
  show "isOfflineMode (clearCandidates d)" by (rule writes_absent(3) [OF a])
  show "isOfflineMode (addCandidates cs d)" if "cs \<noteq> []"
    using that by (rule writes_absent(1) [OF a])
next
  assume o: "isOfflineMode f"
  show "addCandidates cs f = f" by (rule writes_offline(1) [OF o])
  show "updateStatus i s f = f" by (rule writes_offline(2) [OF o])
  show "clearCandidates f = f" by (rule writes_offline(3) [OF o])
  show "isOfflineMode (snd (getAllCandidates f))" by (rule getAllCandidates_stays_offline [OF o])
  assume "fault (remote f) = None \<and> table (remote f) = Some rows"
  then show "fst (getAllCandidates f) = \<lparr>data = map mapRow rows, error = None\<rparr>"
    by (simp add: getAllCandidates_rows)
next
  show "remote (snd (getAllCandidates g)) = (remote g)\<lparr>requests := requests (remote g) @ [Select]\<rparr>"
    by (rule remote_getAll)
  show "isOfflineMode (snd (retryConnection r)) = schemaAbsent (remote r)"
    by (rule retryConnection_flag)
next
  assume "fst (retryConnection r)"
  then show "\<not> isOfflineMode (snd (retryConnection r))" by (rule retryConnection_true)
qed

theorem offline_mode_contract_witness:
  "schemaAbsent (remote (online noTable))
   \<and> isOfflineMode (snd (getAllCandidates (online noTable)))
   \<and> [annCandidate] \<noteq> []
   \<and> isOfflineMode (addCandidates [annCandidate] (online noTable))
   \<and> isOfflineMode (offlineOver noTable)
   \<and> updateStatus (js ''c-7-0'') Sent (offlineOver noTable) = offlineOver noTable
   \<and> isOfflineMode (offlineOver interruptedStore)
   \<and> fault (remote (offlineOver interruptedStore)) = None
   \<and> table (remote (offlineOver interruptedStore))
       = Some [(toRow annCandidate)\<lparr>row_status := Some Sending\<rparr>]
   \<and> fst (getAllCandidates (offlineOver interruptedStore))
       = \<lparr>data = map mapRow [(toRow annCandidate)\<lparr>row_status := Some Sending\<rparr>], error = None\<rparr>
   \<and> requests (remote (snd (getAllCandidates (offlineOver noTable)))) = [Select]
   \<and> fst (retryConnection (offlineOver interruptedStore))
   \<and> \<not> isOfflineMode (snd (retryConnection (offlineOver interruptedStore)))"
proof -
  note t = offline_mode_contract
    [of "online noTable" "js ''c-7-0''" Sent "[annCandidate]" "offlineOver noTable"
        "[(toRow annCandidate)\<lparr>row_status := Some Sending\<rparr>]" "offlineOver noTable"
        "offlineOver interruptedStore"]
  note u = offline_mode_contract
    [of "online noTable" "js ''c-7-0''" Sent "[annCandidate]" "offlineOver interruptedStore"
        "[(toRow annCandidate)\<lparr>row_status := Some Sending\<rparr>]" "offlineOver noTable"
        "offlineOver interruptedStore"]
  have a: "schemaAbsent (remote (online noTable))"
    by (simp add: online_def schemaAbsent_noTable)
  have o: "isOfflineMode (offlineOver noTable)" "isOfflineMode (offlineOver interruptedStore)"
    by (simp_all add: offlineOver_def)
  have i: "fault (remote (offlineOver interruptedStore)) = None"
    "table (remote (offlineOver interruptedStore))
       = Some [(toRow annCandidate)\<lparr>row_status := Some Sending\<rparr>]"
    by (simp_all add: offlineOver_def interruptedStore_table)
  have r: "fst (retryConnection (offlineOver interruptedStore))"
    by (simp add: retryConnection_def offlineOver_def getAllCandidates_def supabase_select_def
        answer_def interruptedStore_table)
  have n: "[annCandidate] \<noteq> []" by simp
  from t a have c1: "isOfflineMode (snd (getAllCandidates (online noTable)))" by blast
  from t a n have c2: "isOfflineMode (addCandidates [annCandidate] (online noTable))" by blast
  from t o(1) have c3: "updateStatus (js ''c-7-0'') Sent (offlineOver noTable) = offlineOver noTable"
    by blast
  from u o(2) i have c4: "fst (getAllCandidates (offlineOver interruptedStore))
       = \<lparr>data = map mapRow [(toRow annCandidate)\<lparr>row_status := Some Sending\<rparr>], error = None\<rparr>"
    by blast
  from t have "remote (snd (getAllCandidates (offlineOver noTable)))
                 = (remote (offlineOver noTable))\<lparr>requests := requests (remote (offlineOver noTable)) @ [Select]\<rparr>"
    by blast
  then have c5: "requests (remote (snd (getAllCandidates (offlineOver noTable)))) = [Select]"
    by (simp add: offlineOver_def noTable_def)
  from t r have c6: "\<not> isOfflineMode (snd (retryConnection (offlineOver interruptedStore)))"
    by blast
  from a n o i r c1 c2 c3 c4 c5 c6 show ?thesis by blast
qed

text \<open>
  C10, as the claim states it. With a candidate ticked, a bulk send over all pending
  candidates is confirmed and the candidate is still selected; the send then runs to its
  end, the candidate's message is sent, and the candidate is still selected.
\<close>

theorem send_all_keeps_selection:
  "selectedIds (fst (fire ConfirmBulk (fire ClickSendAll (fire (ToggleSelection annCandidate)
      (initialQueue, setStep QUEUE afterUpload))))) = {js ''c-7-0''}
   \<and> map_option selectedIds (queue (settle (queueEvent ConfirmBulk (queueEvent ClickSendAll
        (queueEvent (ToggleSelection annCandidate) (queueOver [annCandidate]))))))
       = Some {js ''c-7-0''}
   \<and> map_option isBulkSending (queue (settle (queueEvent ConfirmBulk (queueEvent ClickSendAll
        (queueEvent (ToggleSelection annCandidate) (queueOver [annCandidate]))))))
       = Some False
   \<and> since (queueOver [annCandidate]) (settle (queueEvent ConfirmBulk (queueEvent ClickSendAll
        (queueEvent (ToggleSelection annCandidate) (queueOver [annCandidate])))))
       = [(js ''c-7-0'', Sending), (js ''c-7-0'', Sent)]"
proof -
  define x where "x = queueEvent ConfirmBulk ((queueOver [annCandidate])\<lparr>queue := Some selectedThenAll\<rparr>)"
  have a: "selectedIds (fst (fire ConfirmBulk (fire ClickSendAll (fire (ToggleSelection annCandidate)
      (initialQueue, setStep QUEUE afterUpload))))) = {js ''c-7-0''}"
    by (simp add: afterUpload_candidates toggleSelection_def initialQueue_def pendingCount_def
        handleBulkSendClick_def confirmBulkSend_selection) (simp add: annCandidate_def)
  have t: "tasks x = [BulkSend annCandidate [] (fullMessage helloTemplate)]"
    and q: "queue x = Some (selectedThenAll\<lparr>showBulkConfirm := False, isBulkSending := True\<rparr>)"
    and h: "history x = [(js ''c-7-0'', Sending)]"
    and o: "opened x = []" "popups x = allowed"
    by (simp_all add: x_def ticked_then_all_confirmed queueOver_fields)
  have n: "\<forall>y\<in>set [annCandidate]. \<not> throws (fullMessage helloTemplate) y"
    by (simp add: no_throw_ann)
  from settle_kept [of x] q
  have b: "map_option selectedIds (queue (settle x)) = Some {js ''c-7-0''}"
    by (simp add: selectedThenAll_def)
  from bulk_complete [OF t n] obtain outs where outs: "length outs = Suc 0"
    "(cid annCandidate, Sending) # since x (settle x) = attempts [annCandidate] outs"
    "queue (settle x)
       = map_option (\<lambda>q. q\<lparr>isBulkSending := False, bulkActionType := None\<rparr>) (queue x)"
    by auto
  from outs(3) q have c: "map_option isBulkSending (queue (settle x)) = Some False"
    by simp
  define v where "v = x\<lparr>tasks := []\<rparr>"
  have r: "resumeBulk annCandidate [] (fullMessage helloTemplate) v
             = (handleUpdateStatus (cid annCandidate) Sent
                  (v\<lparr>opened := opened v @ [js ''https://api.whatsapp.com/send?phone=''
                       @ formatPhone (phone annCandidate) @ js ''&text=''
                       @ the (encodeURIComponent (personalizedMessage (fullMessage helloTemplate) annCandidate))]\<rparr>))
                 \<lparr>queue := map_option (\<lambda>q. q\<lparr>isBulkSending := False, bulkActionType := None\<rparr>)
                                (queue v)\<rparr>"
  proof -
    have "formatPhone (phone annCandidate) \<noteq> []"
      by (simp add: annCandidate_def formatPhone_def isDigit_def js_def)
    moreover from no_throw_ann this obtain enc
      where "encodeURIComponent (personalizedMessage (fullMessage helloTemplate) annCandidate) = Some enc"
      by (auto simp: throws_def)
    moreover have "popups v (length (opened v))" by (simp add: v_def o allowed_def)
    ultimately show ?thesis by (simp add: resumeBulk_def openWhatsApp_def Let_def)
  qed
  then have "tasks (resumeBulk annCandidate [] (fullMessage helloTemplate) v) = []"
    by (simp add: v_def)
  then have s: "settle x = resumeBulk annCandidate [] (fullMessage helloTemplate) v"
    using settle_Cons [OF t] by (simp add: v_def settle_Nil)
  have "history (settle x) = [(js ''c-7-0'', Sending), (js ''c-7-0'', Sent)]"
    unfolding s using r h by (simp add: v_def) (simp add: annCandidate_def)
  then have d: "since (queueOver [annCandidate]) (settle x)
                  = [(js ''c-7-0'', Sending), (js ''c-7-0'', Sent)]"
    by (simp add: since_def queueOver_fields)
  from a b c d show ?thesis by (simp add: ticked_then_all x_def)
qed

text \<open>
  C10, amended. The selection is empty after bulk-skip, after bulk-retry and after a bulk
  send sourced from the selection; a bulk send over all pending candidates leaves the
  selection as it was, and no later step of a send, to its end, changes the selection. A
  roster replacement (Start Over, or a new upload) leaves the queue unmounted, and the queue
  mounts with an empty selection.
\<close>

theorem selection_cleared_except_send_all:
  "selectedIds (fst (handleBulkSkip qw)) = {}
   \<and> selectedIds (fst (handleBulkRetry qw)) = {}
   \<and> (bulkActionType (fst qs) = Some Selected \<longrightarrow> selectedIds (fst (confirmBulkSend qs)) = {})
   \<and> (bulkActionType (fst qa) \<noteq> Some Selected \<longrightarrow>
        selectedIds (fst (confirmBulkSend qa)) = selectedIds (fst qa))
   \<and> map_option selectedIds (queue (resume t v)) = map_option selectedIds (queue v)
   \<and> map_option selectedIds (queue (settle v)) = map_option selectedIds (queue v)
   \<and> queue (handleReset w) = None
   \<and> (\<forall>w'. handleDataLoaded ai now rawData w = Inr w' \<longrightarrow> queue w' = None)
   \<and> (queue w0 = None \<longrightarrow> map_option selectedIds (queue (setStep QUEUE w0)) = Some {})"
proof (intro conjI impI allI)
  show "selectedIds (fst (handleBulkSkip qw)) = {}" by (rule handleBulkSkip_selection)
  show "selectedIds (fst (handleBulkRetry qw)) = {}" by (rule handleBulkRetry_selection)
  show "queue (handleReset w) = None" by (rule handleReset_queue)
  show "map_option selectedIds (queue (resume t v)) = map_option selectedIds (queue v)"
    by (rule resume_kept(2))
  show "map_option selectedIds (queue (settle v)) = map_option selectedIds (queue v)"
    using settle_kept [of v] by (rule conjunct2)
next
  assume "bulkActionType (fst qs) = Some Selected"
  then show "selectedIds (fst (confirmBulkSend qs)) = {}"
    by (simp add: confirmBulkSend_selection)
next
  assume "bulkActionType (fst qa) \<noteq> Some Selected"
  then show "selectedIds (fst (confirmBulkSend qa)) = selectedIds (fst qa)"
    by (simp add: confirmBulkSend_selection)
next
  fix w' assume "handleDataLoaded ai now rawData w = Inr w'"
  then show "queue w' = None" by (rule handleDataLoaded_queue)
next
  assume "queue w0 = None"
  then show "map_option selectedIds (queue (setStep QUEUE w0)) = Some {}"
    by (rule mount_selection)
qed

theorem selection_cleared_except_send_all_witness:
  "bulkActionType selectedForSend = Some Selected
   \<and> selectedIds (fst (confirmBulkSend (selectedForSend, setStep QUEUE afterUpload))) = {}
   \<and> bulkActionType selectedThenAll \<noteq> Some Selected
   \<and> selectedIds (fst (confirmBulkSend (selectedThenAll, setStep QUEUE afterUpload))) = {js ''c-7-0''}
   \<and> handleDataLoaded unavailable noon [annRow] (startup blankStore allowed) = Inr afterUpload
   \<and> queue afterUpload = None
   \<and> map_option selectedIds (queue (setStep QUEUE afterUpload)) = Some {}"
proof -
  note t = selection_cleared_except_send_all
    [of "(selectedForSend, setStep QUEUE afterUpload)"
        "(selectedForSend, setStep QUEUE afterUpload)"
        "(selectedThenAll, setStep QUEUE afterUpload)"
        "SingleSend annCandidate []" afterUpload
        "startup blankStore allowed" unavailable noon "[annRow]" afterUpload]
  have s: "bulkActionType selectedForSend = Some Selected"
    by (simp add: selectedForSend_def)
  have a: "bulkActionType selectedThenAll \<noteq> Some Selected"
    by (simp add: selectedThenAll_def)
  have i: "selectedIds selectedThenAll = {js ''c-7-0''}"
    by (simp add: selectedThenAll_def)
  from t s have c1: "selectedIds (fst (confirmBulkSend (selectedForSend, setStep QUEUE afterUpload))) = {}"
    by simp
  from t a i have c2: "selectedIds (fst (confirmBulkSend (selectedThenAll, setStep QUEUE afterUpload))) = {js ''c-7-0''}"
    by simp
  from t afterUpload_Inr have c3: "queue afterUpload = None"
    by blast
  with t have c4: "map_option selectedIds (queue (setStep QUEUE afterUpload)) = Some {}"
    by blast
  from s a c1 c2 c3 c4 afterUpload_Inr show ?thesis by blast
qed

end
